theory Spec2Isabelle
  imports Main
begin

section \<open>Values, exceptions and tables\<close>

text \<open>
  The two scripts under \<open>services/trend-service\<close> read tables produced by the pytrends
  client, pick keyword strings out of them and print one JSON document.

  What reading a row gives is one of: \<open>None\<close>, a string, a Python integer, a numpy
  integer (\<open>numpy.int64\<close>, what a row of an all-numeric table holds), a boolean, the float
  \<open>nan\<close> that pandas writes for a missing value, \<open>pandas.NA\<close>, or a nested series (what
  pandas returns for a label that occurs more than once). Strings are lists of 8-bit
  characters; code points above 255, floats other than \<open>nan\<close>, and cells that hold
  lists or dictionaries are not represented.
\<close>

datatype pyval = PNone | PStr string | PInt int | PNpInt int | PBool bool | PNaN | PNA | PSeries

text \<open>The exceptions the scripts can meet; all of them are subclasses of \<open>Exception\<close>.\<close>

datatype exn =
    ResponseError string
  | KeyError string
  | ValueError string
  | TypeError string
  | OtherError string

text \<open>A column label is a name or, for a table built from a plain list, a position.\<close>

datatype label = Name string | Pos int

text \<open>
  A row, as \<open>iterrows\<close> yields it, is a series: its entries in order, each a label with
  what reading it gives, a value or a raised exception. \<open>row.get(c)\<close> answers \<open>None\<close> for a
  label the series does not have, where \<open>row[c]\<close> raises \<open>KeyError\<close>; for a label with
  one entry both give that entry, and for a label with several entries both return the
  nested series of them.
\<close>

type_synonym series = "(label \<times> (exn + pyval)) list"

record dataframe =
  columns :: "label list"
  rows :: "series list"

definition hits :: "series \<Rightarrow> label \<Rightarrow> (exn + pyval) list" where
  "hits row c = map snd (filter (\<lambda>p. fst p = c) row)"

definition series_get :: "series \<Rightarrow> label \<Rightarrow> exn + pyval" where
  "series_get row c =
     (case hits row c of [] \<Rightarrow> Inr PNone | [a] \<Rightarrow> a | a # b # others \<Rightarrow> Inr PSeries)"

fun label_text :: "label \<Rightarrow> string" where
  "label_text (Name s) = s"
| "label_text (Pos i) = ''<position>''"

definition series_getitem :: "series \<Rightarrow> label \<Rightarrow> exn + pyval" where
  "series_getitem row c =
     (case hits row c of
        [] \<Rightarrow> Inl (KeyError (label_text c))
      | [a] \<Rightarrow> a
      | a # b # others \<Rightarrow> Inr PSeries)"

text \<open>\<open>df.empty\<close>: some axis of the table has length zero.\<close>

definition df_empty :: "dataframe \<Rightarrow> bool" where
  "df_empty df = (columns df = [] \<or> rows df = [])"

subsection \<open>Truth value, text and trimming\<close>

text \<open>
  The truth test \<open>if v:\<close>. It raises on \<open>pandas.NA\<close> and on a nested series.
\<close>

fun truth :: "pyval \<Rightarrow> exn + bool" where
  "truth PNone = Inr False"
| "truth (PStr s) = Inr (s \<noteq> [])"
| "truth (PInt n) = Inr (n \<noteq> 0)"
| "truth (PNpInt n) = Inr (n \<noteq> 0)"
| "truth (PBool b) = Inr b"
| "truth PNaN = Inr True"
| "truth PNA = Inl (TypeError ''boolean value of NA is ambiguous'')"
| "truth PSeries = Inl (ValueError ''The truth value of a Series is ambiguous'')"

definition digit_char :: "nat \<Rightarrow> char" where
  "digit_char d = char_of (48 + d)"

fun nat_str :: "nat \<Rightarrow> string" where
  "nat_str n = (if n < 10 then [digit_char n] else nat_str (n div 10) @ [digit_char (n mod 10)])"

declare nat_str.simps [simp del]

definition int_str :: "int \<Rightarrow> string" where
  "int_str i = (if i < 0 then CHR ''-'' # nat_str (nat (- i)) else nat_str (nat i))"

text \<open>
  \<open>str(v)\<close>, which is defined on each of these values. The text of a nested series is its
  printout, which lists the entries; it stands here as one fixed text.
\<close>

fun py_str :: "pyval \<Rightarrow> string" where
  "py_str PNone = ''None''"
| "py_str (PStr s) = s"
| "py_str (PInt n) = int_str n"
| "py_str (PNpInt n) = int_str n"
| "py_str (PBool b) = (if b then ''True'' else ''False'')"
| "py_str PNaN = ''nan''"
| "py_str PNA = ''<NA>''"
| "py_str PSeries = ''<Series>''"

text \<open>\<open>str.isspace\<close> on the code points below 256.\<close>

definition py_isspace :: "char \<Rightarrow> bool" where
  "py_isspace c = ((of_char c :: nat) \<in> {9, 10, 11, 12, 13, 28, 29, 30, 31, 32, 133, 160})"

definition strip :: "string \<Rightarrow> string" where
  "strip s = rev (dropWhile py_isspace (rev (dropWhile py_isspace s)))"

section \<open>The defensive row extractor\<close>

text \<open>
  \<open>_safe_extract_keywords_from_df\<close>, lines 58 to 100 of \<open>pytrends_fetch_DDONG.py\<close>.
  The candidate columns are the preferred names the table has, in the fixed order, then
  the first column.
\<close>

definition preferred :: "label list" where
  "preferred = [Name ''query'', Name ''title'', Name ''keyword'']"

definition candidate_cols :: "label list \<Rightarrow> label list" where
  "candidate_cols cols =
     filter (\<lambda>c. c \<in> set cols) preferred @ (if cols \<noteq> [] then [hd cols] else [])"

text \<open>
  The inner loop over the candidates (lines 81 to 89). \<open>kw\<close> is \<open>None\<close> or the last
  text assigned; the loop breaks at the first text that is not empty. An exception of
  \<open>row.get\<close> is caught and read as \<open>None\<close> (lines 82 to 85); the truth test of line 86
  is outside that \<open>try\<close>, and an exception of it leaves the function.
\<close>

fun scan_candidates :: "series \<Rightarrow> string option \<Rightarrow> label list \<Rightarrow> exn + string option" where
  "scan_candidates row kw [] = Inr kw"
| "scan_candidates row kw (c # cs) =
     (let v = (case series_get row c of Inl e \<Rightarrow> PNone | Inr v \<Rightarrow> v) in
      case truth v of
        Inl e \<Rightarrow> Inl e
      | Inr b \<Rightarrow>
          if b then
            (let kw' = strip (py_str v) in
             if kw' \<noteq> [] then Inr (Some kw') else scan_candidates row (Some kw') cs)
          else scan_candidates row kw cs)"

text \<open>\<open>if kw:\<close> on a value that is \<open>None\<close> or a string.\<close>

fun kw_truthy :: "string option \<Rightarrow> bool" where
  "kw_truthy None = False"
| "kw_truthy (Some s) = (s \<noteq> [])"

text \<open>The outer loop over the rows (lines 78 to 91), appending to \<open>out\<close>.\<close>

fun collect_rows :: "label list \<Rightarrow> series list \<Rightarrow> string list \<Rightarrow> exn + string list" where
  "collect_rows cands [] out = Inr out"
| "collect_rows cands (row # rest) out =
     (case scan_candidates row None cands of
        Inl e \<Rightarrow> Inl e
      | Inr kw \<Rightarrow> collect_rows cands rest (if kw_truthy kw then out @ [the kw] else out))"

text \<open>The order-keeping removal of repeats (lines 93 to 100), with its seen-set.\<close>

fun uniq_loop :: "string list \<Rightarrow> string set \<Rightarrow> string list \<Rightarrow> string list" where
  "uniq_loop [] seen uniq = uniq"
| "uniq_loop (k # ks) seen uniq =
     (if k \<notin> seen then uniq_loop ks (insert k seen) (uniq @ [k])
      else uniq_loop ks seen uniq)"

definition dedup :: "string list \<Rightarrow> string list" where
  "dedup ks = uniq_loop ks {} []"

text \<open>
  The list \<open>out\<close> as it stands at line 92, before the repeats are removed, or the
  exception that ended the loop.
\<close>

definition raw_keywords :: "dataframe \<Rightarrow> exn + string list" where
  "raw_keywords df = collect_rows (candidate_cols (columns df)) (rows df) []"

definition safe_extract_keywords_from_df :: "dataframe option \<Rightarrow> exn + string list" where
  "safe_extract_keywords_from_df dfo =
     (case dfo of
        None \<Rightarrow> Inr []
      | Some df \<Rightarrow>
          if df_empty df then Inr []
          else (case raw_keywords df of Inl e \<Rightarrow> Inl e | Inr out \<Rightarrow> Inr (dedup out)))"

section \<open>The source client and what a run leaves behind\<close>

text \<open>
  The pytrends handle is an external collaborator. In one run each of its methods is
  called at most once, so the handle is described by the outcome of each call: an
  exception, or the returned value. \<open>related_queries\<close> returns a dictionary from seed
  term to a dictionary holding the table of rising queries (or \<open>None\<close>) under
  \<open>rising\<close>.
\<close>

type_synonym related = "(string \<times> (string \<times> dataframe option) list) list"

record client =
  build_payload :: "string list \<Rightarrow> string \<Rightarrow> string \<Rightarrow> string \<Rightarrow> exn option"
  related_queries :: "exn + related"
  realtime_trending_searches :: "string \<Rightarrow> exn + dataframe option"
  trending_searches :: "string \<Rightarrow> exn + dataframe option"
  daily_search_trends :: "string \<Rightarrow> string \<Rightarrow> exn + dataframe option"

text \<open>
  The surroundings of a run: what constructing the handle gives, and the date the clock
  shows (taken as the same at every reading within the run).
\<close>

record world =
  TrendReq :: "exn + client"
  today_str :: string

text \<open>Every use of the handle, in the order it happens, with the identifiers passed.\<close>

datatype call =
    Construct
  | BuildPayload "string list" string string string
  | RelatedQueries
  | Realtime string
  | Trending string
  | Daily string string

text \<open>The lines written to the diagnostic channel, by what they report.\<close>

datatype log_entry =
    LogUsage
  | LogTraceback exn
  | LogStart string
  | LogAttempt string
  | LogSuccess string nat
  | LogEmpty string
  | LogFailed string exn
  | LogExperimentalAttempt string string string
  | LogExperimentalCount nat
  | LogExperimentalResponseError exn
  | LogExperimentalException exn
  | LogCompleted string nat
  | LogFound nat
  | LogNoRising
  | LogFatal exn

text \<open>\<open>rq.get(seed, {}).get("rising")\<close>.\<close>

definition rising_of :: "related \<Rightarrow> string \<Rightarrow> dataframe option" where
  "rising_of rq seed =
     (case map_of rq seed of
        None \<Rightarrow> None
      | Some d \<Rightarrow> (case map_of d ''rising'' of None \<Rightarrow> None | Some r \<Rightarrow> r))"

section \<open>The tiered fetch strategy\<close>

text \<open>
  \<open>fetch_trending_keywords\<close>, lines 103 to 147. Each of the three \<open>try\<close> blocks has the
  same shape: log the attempt, call, extract, return when the list is not empty, log the
  empty result otherwise, and log any exception, of the call or of the extraction, both
  being inside the \<open>try\<close>. \<open>attempt\<close> is that shape, given the outcome of the call; it
  answers the keywords to return, if any, and the lines logged.
\<close>

definition attempt :: "string \<Rightarrow> exn + dataframe option \<Rightarrow> string list option \<times> log_entry list" where
  "attempt name outcome =
     (case outcome of
        Inl e \<Rightarrow> (None, [LogAttempt name, LogFailed name e])
      | Inr df \<Rightarrow>
          (case safe_extract_keywords_from_df df of
             Inl e \<Rightarrow> (None, [LogAttempt name, LogFailed name e])
           | Inr kws \<Rightarrow>
               if kws \<noteq> [] then (Some kws, [LogAttempt name, LogSuccess name (length kws)])
               else (None, [LogAttempt name, LogEmpty name])))"

definition fetch_trending_keywords ::
  "client \<Rightarrow> string \<Rightarrow> string \<Rightarrow> (string list \<times> string) \<times> log_entry list \<times> call list" where
  "fetch_trending_keywords pytrends pn today =
     (case attempt ''realtime_trending_searches'' (realtime_trending_searches pytrends pn) of
        (Some kws, l1) \<Rightarrow> ((kws, ''realtime_trending_searches''), l1, [Realtime pn])
      | (None, l1) \<Rightarrow>
        (case attempt ''trending_searches'' (trending_searches pytrends pn) of
           (Some kws, l2) \<Rightarrow> ((kws, ''trending_searches''), l1 @ l2, [Realtime pn, Trending pn])
         | (None, l2) \<Rightarrow>
           (case attempt ''daily_search_trends'' (daily_search_trends pytrends pn today) of
              (Some kws, l3) \<Rightarrow>
                ((kws, ''daily_search_trends''), l1 @ l2 @ l3,
                 [Realtime pn, Trending pn, Daily pn today])
            | (None, l3) \<Rightarrow>
                (([], ''none''), l1 @ l2 @ l3, [Realtime pn, Trending pn, Daily pn today]))))"

section \<open>The keyword-biased approximation\<close>

text \<open>
  \<open>fetch_youtube_like_keywords_experimental\<close>, lines 150 to 183. Nothing is caught
  here: an exception of the handle, of \<open>row.get\<close> or of the truth test \<open>if q:\<close> leaves the
  function.
\<close>

fun query_loop :: "series list \<Rightarrow> string list \<Rightarrow> exn + string list" where
  "query_loop [] kws = Inr kws"
| "query_loop (row # rest) kws =
     (case series_get row (Name ''query'') of
        Inl e \<Rightarrow> Inl e
      | Inr q \<Rightarrow>
          (case truth q of
             Inl e \<Rightarrow> Inl e
           | Inr b \<Rightarrow> query_loop rest (if b then kws @ [strip (py_str q)] else kws)))"

fun uniq_nonempty_loop :: "string list \<Rightarrow> string set \<Rightarrow> string list \<Rightarrow> string list" where
  "uniq_nonempty_loop [] seen uniq = uniq"
| "uniq_nonempty_loop (k # ks) seen uniq =
     (if k \<noteq> [] \<and> k \<notin> seen then uniq_nonempty_loop ks (insert k seen) (uniq @ [k])
      else uniq_nonempty_loop ks seen uniq)"

definition fetch_youtube_like_keywords_experimental ::
  "client \<Rightarrow> string \<Rightarrow> int \<Rightarrow> (exn + string list) \<times> log_entry list \<times> call list" where
  "fetch_youtube_like_keywords_experimental pytrends geo days =
     (let timeframe = ''now '' @ int_str days @ ''-d'';
          seed = ''youtube'';
          l0 = [LogExperimentalAttempt seed geo timeframe];
          bp = BuildPayload [seed] timeframe geo ''youtube''
      in case build_payload pytrends [seed] timeframe geo ''youtube'' of
           Some e \<Rightarrow> (Inl e, l0, [bp])
         | None \<Rightarrow>
           (case related_queries pytrends of
              Inl e \<Rightarrow> (Inl e, l0, [bp, RelatedQueries])
            | Inr rq \<Rightarrow>
              (case rising_of rq seed of
                 None \<Rightarrow> (Inr [], l0, [bp, RelatedQueries])
               | Some rising_df \<Rightarrow>
                   if df_empty rising_df then (Inr [], l0, [bp, RelatedQueries])
                   else
                     (case query_loop (rows rising_df) [] of
                        Inl e \<Rightarrow> (Inl e, l0, [bp, RelatedQueries])
                      | Inr kws \<Rightarrow>
                          (let uniq = uniq_nonempty_loop kws {} [] in
                           (Inr uniq, l0 @ [LogExperimentalCount (length uniq)],
                            [bp, RelatedQueries]))))))"

section \<open>Arguments, the result document and the two programs\<close>

text \<open>The document \<open>json.dumps\<close> serialises: scalars, lists and dictionaries.\<close>

datatype json = JVal pyval | JList "json list" | JDict "(string \<times> json) list"

fun jget :: "json \<Rightarrow> string \<Rightarrow> json option" where
  "jget (JDict kvs) k = map_of kvs k"
| "jget (JVal v) k = None"
| "jget (JList js) k = None"

fun jlist :: "json option \<Rightarrow> json list" where
  "jlist (Some (JList js)) = js"
| "jlist (Some (JVal v)) = []"
| "jlist (Some (JDict kvs)) = []"
| "jlist None = []"

text \<open>
  What \<open>json.dumps\<close> can serialise: it raises \<open>TypeError\<close> on a numpy integer, on
  \<open>pandas.NA\<close> and on a series; \<open>nan\<close> is written as \<open>NaN\<close>.
\<close>

fun json_scalar :: "pyval \<Rightarrow> bool" where
  "json_scalar (PNpInt n) = False"
| "json_scalar PNA = False"
| "json_scalar PSeries = False"
| "json_scalar PNone = True"
| "json_scalar (PStr s) = True"
| "json_scalar (PInt n) = True"
| "json_scalar (PBool b) = True"
| "json_scalar PNaN = True"

primrec serialisable :: "json \<Rightarrow> bool" where
  "serialisable (JVal v) = json_scalar v"
| "serialisable (JList js) = list_all id (map serialisable js)"
| "serialisable (JDict kvs) = list_all snd (map (map_prod id serialisable) kvs)"

text \<open>
  The option values as \<open>argparse\<close> collects them from the command line, before it checks
  \<open>required\<close> and \<open>choices\<close>: \<open>None\<close> is an option that was not given.
\<close>

record cli =
  arg_region :: "string option"
  arg_days :: "string option"
  arg_prefer_youtube :: bool

record args =
  region :: string
  days :: string
  prefer_youtube :: bool

definition region_choices :: "string list" where
  "region_choices = [''KR'', ''US'', ''MX'']"

text \<open>
  \<open>parse_args\<close> of \<open>pytrends_fetch_DDONG.py\<close> (lines 187 to 191). A failure is the usage
  error with which \<open>argparse\<close> ends the process, status 2.
\<close>

definition parse_args :: "cli \<Rightarrow> unit + args" where
  "parse_args c =
     (case arg_region c of
        None \<Rightarrow> Inl ()
      | Some r \<Rightarrow>
          if r \<in> set region_choices
          then Inr \<lparr>region = r,
                    days = (case arg_days c of None \<Rightarrow> ''7'' | Some d \<Rightarrow> d),
                    prefer_youtube = arg_prefer_youtube c\<rparr>
          else Inl ())"

text \<open>
  \<open>parse_args\<close> of \<open>pytrends_fetch.py\<close> (lines 40 to 43): this parser has no
  \<open>--prefer_youtube\<close> and rejects it as an unrecognised argument.
\<close>

definition parse_args_basic :: "cli \<Rightarrow> unit + args" where
  "parse_args_basic c =
     (if arg_prefer_youtube c then Inl () else parse_args c)"

text \<open>
  \<open>int(s)\<close> on a string: surrounding whitespace is dropped, one sign is allowed, then
  decimal digits, single underscores allowed between digits, and at most 4300 digits
  (the default limit of CPython 3.11 and later). \<open>None\<close> is \<open>ValueError\<close>. The whitespace
  of \<open>int\<close> is narrower than that of \<open>str.strip\<close>: the separators 28 to 31 are not
  dropped.
\<close>

definition int_isspace :: "char \<Rightarrow> bool" where
  "int_isspace c = ((of_char c :: nat) \<in> {9, 10, 11, 12, 13, 32, 133, 160})"

definition int_max_str_digits :: nat where
  "int_max_str_digits = 4300"

definition is_digit :: "char \<Rightarrow> bool" where
  "is_digit c = (48 \<le> (of_char c :: nat) \<and> (of_char c :: nat) \<le> 57)"

fun parse_digits :: "bool \<Rightarrow> nat \<Rightarrow> string \<Rightarrow> nat option" where
  "parse_digits prev acc [] = (if prev then Some acc else None)"
| "parse_digits prev acc (c # cs) =
     (if is_digit c then parse_digits True (10 * acc + (of_char c - 48)) cs
      else if c = CHR ''_'' \<and> prev \<and> cs \<noteq> [] \<and> is_digit (hd cs)
           then parse_digits False acc cs
      else None)"

definition py_int :: "string \<Rightarrow> int option" where
  "py_int s =
     (case rev (dropWhile int_isspace (rev (dropWhile int_isspace s))) of
        [] \<Rightarrow> None
      | c # cs \<Rightarrow>
          if length (filter is_digit (c # cs)) > int_max_str_digits then None
          else if c = CHR ''-'' then map_option (\<lambda>n. - int n) (parse_digits False 0 cs)
          else if c = CHR ''+'' then map_option int (parse_digits False 0 cs)
          else map_option int (parse_digits False 0 (c # cs)))"

definition REGION_GEO_MAP :: "(string \<times> string) list" where
  "REGION_GEO_MAP = [(''KR'', ''KR''), (''US'', ''US''), (''MX'', ''MX'')]"

definition REGION_PN_MAP :: "(string \<times> string) list" where
  "REGION_PN_MAP =
     [(''KR'', ''south_korea''), (''US'', ''united_states''), (''MX'', ''mexico'')]"

text \<open>\<open>d.get(k, default)\<close>.\<close>

definition dict_get :: "(string \<times> string) list \<Rightarrow> string \<Rightarrow> string \<Rightarrow> string" where
  "dict_get d k dflt = (case map_of d k of None \<Rightarrow> dflt | Some v \<Rightarrow> v)"

text \<open>
  What a run leaves behind: the exit status, the writes to standard output (each one a
  serialised document), the diagnostic lines, and the uses of the source client.
\<close>

record outcome =
  exit_code :: nat
  stdout :: "json list"
  stderr :: "log_entry list"
  network :: "call list"

text \<open>
  \<open>print(json.dumps(result))\<close>, the last statement of both programs and outside their
  \<open>try\<close>: when the document cannot be serialised the \<open>TypeError\<close> ends the process with
  the traceback and status 1, and nothing has been printed. Writing a text to either
  channel is taken to succeed: the channels are open and their encoding holds every
  character written.
\<close>

definition emit :: "json \<Rightarrow> log_entry list \<Rightarrow> call list \<Rightarrow> outcome" where
  "emit doc l cs =
     (if serialisable doc
      then \<lparr>exit_code = 0, stdout = [doc], stderr = l, network = cs\<rparr>
      else \<lparr>exit_code = 1, stdout = [],
            stderr = l @ [LogTraceback (TypeError ''not JSON serializable'')],
            network = cs\<rparr>)"

definition result_doc :: "string \<Rightarrow> int \<Rightarrow> json list \<Rightarrow> json list \<Rightarrow> json" where
  "result_doc r d its kws =
     JDict [(''region'', JVal (PStr r)), (''days'', JVal (PInt d)),
            (''items'', JList its), (''keywords'', JList kws)]"

subsection \<open>\<open>pytrends_fetch_DDONG.py\<close>\<close>

text \<open>
  The optional first step of \<open>main\<close> (lines 215 to 225): the keywords and the source
  name it leaves, its log lines and its calls. Both handlers leave the list empty.
\<close>

definition experimental_step ::
  "client \<Rightarrow> string \<Rightarrow> int \<Rightarrow> string list \<times> string \<times> log_entry list \<times> call list" where
  "experimental_step pytrends geo d =
     (case fetch_youtube_like_keywords_experimental pytrends geo d of
        (Inr kws, l, cs) \<Rightarrow> (kws, ''youtube_experimental_related_queries'', l, cs)
      | (Inl (ResponseError m), l, cs) \<Rightarrow>
          ([], ''none'', l @ [LogExperimentalResponseError (ResponseError m)], cs)
      | (Inl e, l, cs) \<Rightarrow> ([], ''none'', l @ [LogExperimentalException e], cs))"

text \<open>The loop that fills both lists of the result (lines 232 to 235).\<close>

fun fill_result :: "string \<Rightarrow> string list \<Rightarrow> json list \<times> json list \<Rightarrow> json list \<times> json list" where
  "fill_result today [] (its, ks) = (its, ks)"
| "fill_result today (kw # rest) (its, ks) =
     (let item = JDict [(''date'', JVal (PStr today)), (''keyword'', JVal (PStr kw)),
                        (''traffic'', JVal (PStr []))]
      in fill_result today rest (its @ [item], ks @ [JVal (PStr kw)]))"

definition main_body :: "args \<Rightarrow> int \<Rightarrow> world \<Rightarrow> outcome" where
  "main_body a d w =
     (let geo = dict_get REGION_GEO_MAP (region a) ''KR'';
          pn = dict_get REGION_PN_MAP (region a) ''south_korea'';
          today = today_str w;
          start = LogStart (region a)
      in case TrendReq w of
           Inl e \<Rightarrow>
             \<lparr>exit_code = 1, stdout = [], stderr = [start, LogFatal e], network = [Construct]\<rparr>
         | Inr pytrends \<Rightarrow>
             (case (if prefer_youtube a then experimental_step pytrends geo d
                    else ([], ''none'', [], [])) of
                (keywords, source, l1, c1) \<Rightarrow>
                  (case (if keywords = []
                         then (case fetch_trending_keywords pytrends pn today of
                                 ((k, s), l, c) \<Rightarrow> (k, s, l, c))
                         else (keywords, source, [], [])) of
                     (keywords', source', l2, c2) \<Rightarrow>
                       (case fill_result today keywords' ([], []) of
                          (its, ks) \<Rightarrow>
                            emit (result_doc (region a) d its ks)
                              ([start] @ l1 @ l2 @ [LogCompleted source' (length its)])
                              ([Construct] @ c1 @ c2)))))"

text \<open>
  \<open>main\<close> (lines 186 to 245). A usage error ends the process with status 2; the
  \<open>ValueError\<close> of \<open>int(args.days)\<close> at line 193 is outside the \<open>try\<close> and ends it with
  the traceback and status 1, as does an exception of the last statement (line 245).
\<close>

definition main :: "cli \<Rightarrow> world \<Rightarrow> outcome" where
  "main c w =
     (case parse_args c of
        Inl u \<Rightarrow> \<lparr>exit_code = 2, stdout = [], stderr = [LogUsage], network = []\<rparr>
      | Inr a \<Rightarrow>
          (case py_int (days a) of
             None \<Rightarrow>
               \<lparr>exit_code = 1, stdout = [], stderr = [LogTraceback (ValueError (days a))],
                network = []\<rparr>
           | Some d \<Rightarrow> main_body a d w))"

subsection \<open>\<open>pytrends_fetch.py\<close>\<close>

text \<open>
  The loop over the rising queries (lines 76 to 87): \<open>row['query']\<close> and \<open>row['value']\<close>
  raise when the label is missing, and line 87 appends the item to \<open>keywords\<close> too.
\<close>

fun rising_loop :: "string \<Rightarrow> series list \<Rightarrow> json list \<times> json list \<Rightarrow> exn + json list \<times> json list" where
  "rising_loop today [] (its, ks) = Inr (its, ks)"
| "rising_loop today (row # rest) (its, ks) =
     (case series_getitem row (Name ''query'') of
        Inl e \<Rightarrow> Inl e
      | Inr keyword \<Rightarrow>
          (case series_getitem row (Name ''value'') of
             Inl e \<Rightarrow> Inl e
           | Inr val \<Rightarrow>
               (let item = JDict [(''date'', JVal (PStr today)), (''keyword'', JVal keyword),
                                  (''traffic'', JVal (PStr (py_str val)))]
                in rising_loop today rest (its @ [item], ks @ [item]))))"

definition fatal :: "log_entry list \<Rightarrow> exn \<Rightarrow> call list \<Rightarrow> outcome" where
  "fatal l e cs = \<lparr>exit_code = 1, stdout = [], stderr = l @ [LogFatal e], network = cs\<rparr>"

definition main_basic_body :: "args \<Rightarrow> int \<Rightarrow> world \<Rightarrow> outcome" where
  "main_basic_body a d w =
     (let geo = dict_get REGION_GEO_MAP (region a) ''KR'';
          timeframe = ''now '' @ days a @ ''-d'';
          start = LogStart geo;
          bp = BuildPayload [[]] timeframe geo ''youtube''
      in case TrendReq w of
           Inl e \<Rightarrow> fatal [start] e [Construct]
         | Inr pytrends \<Rightarrow>
             (case build_payload pytrends [[]] timeframe geo ''youtube'' of
                Some e \<Rightarrow> fatal [start] e [Construct, bp]
              | None \<Rightarrow>
                  (case related_queries pytrends of
                     Inl e \<Rightarrow> fatal [start] e [Construct, bp, RelatedQueries]
                   | Inr rq \<Rightarrow>
                       (case rising_of rq [] of
                          None \<Rightarrow>
                            emit (result_doc (region a) d [] []) [start, LogNoRising]
                              [Construct, bp, RelatedQueries]
                        | Some rising_data \<Rightarrow>
                            if df_empty rising_data
                            then emit (result_doc (region a) d [] []) [start, LogNoRising]
                                   [Construct, bp, RelatedQueries]
                            else
                              (case rising_loop (today_str w) (rows rising_data) ([], []) of
                                 Inl e \<Rightarrow>
                                   fatal [start, LogFound (length (rows rising_data))] e
                                     [Construct, bp, RelatedQueries]
                               | Inr (its, ks) \<Rightarrow>
                                   emit (result_doc (region a) d its ks)
                                     [start, LogFound (length (rows rising_data))]
                                     [Construct, bp, RelatedQueries])))))"

text \<open>\<open>main\<close> of \<open>pytrends_fetch.py\<close> (lines 39 to 97); \<open>int(args.days)\<close> is at line 46.\<close>

definition main_basic :: "cli \<Rightarrow> world \<Rightarrow> outcome" where
  "main_basic c w =
     (case parse_args_basic c of
        Inl u \<Rightarrow> \<lparr>exit_code = 2, stdout = [], stderr = [LogUsage], network = []\<rparr>
      | Inr a \<Rightarrow>
          (case py_int (days a) of
             None \<Rightarrow>
               \<lparr>exit_code = 1, stdout = [], stderr = [LogTraceback (ValueError (days a))],
                network = []\<rparr>
           | Some d \<Rightarrow> main_basic_body a d w))"

section \<open>Functions that describe what the loops compute\<close>

text \<open>
  The first occurrences in a list, among the values not seen before: what the loop of
  lines 96 to 99 appends.
\<close>

fun firsts :: "string list \<Rightarrow> string set \<Rightarrow> string list" where
  "firsts [] seen = []"
| "firsts (k # ks) seen = (if k \<in> seen then firsts ks seen else k # firsts ks (insert k seen))"

text \<open>The value the extractor works with at a column: a failed read counts as \<open>None\<close>.\<close>

definition cell :: "series \<Rightarrow> label \<Rightarrow> pyval" where
  "cell row c = (case series_get row c of Inl e \<Rightarrow> PNone | Inr v \<Rightarrow> v)"

text \<open>
  A value is true when the truth test answers yes, and definite when the truth test
  answers at all.
\<close>

definition truthy :: "pyval \<Rightarrow> bool" where
  "truthy v = (truth v = Inr True)"

definition definite :: "pyval \<Rightarrow> bool" where
  "definite v = (\<not> isl (truth v))"

text \<open>
  A value is usable when it is true and its trimmed text is not empty. The float \<open>nan\<close>
  is true, so a missing value is usable, with the text \<open>nan\<close>.
\<close>

definition usable :: "pyval \<Rightarrow> string option" where
  "usable v = (if truthy v \<and> strip (py_str v) \<noteq> [] then Some (strip (py_str v)) else None)"

text \<open>
  A plain row: no label occurs twice, and every read that returns gives a definite value.
  A plain table has plain rows only.
\<close>

definition entry_ok :: "label \<times> (exn + pyval) \<Rightarrow> bool" where
  "entry_ok p = (case snd p of Inl e \<Rightarrow> True | Inr v \<Rightarrow> definite v)"

definition plain_row :: "series \<Rightarrow> bool" where
  "plain_row row = (distinct (map fst row) \<and> list_all entry_ok row)"

definition plain :: "dataframe \<Rightarrow> bool" where
  "plain df = list_all plain_row (rows df)"

text \<open>
  The row rule in the words of the specification: scan the candidate columns in priority
  order and take the first usable value; none means the row is skipped.
\<close>

fun first_usable :: "label list \<Rightarrow> series \<Rightarrow> string option" where
  "first_usable [] row = None"
| "first_usable (c # cs) row =
     (case usable (cell row c) of Some s \<Rightarrow> Some s | None \<Rightarrow> first_usable cs row)"

text \<open>The keyword after the inner loop, as line 90 reads it.\<close>

definition kw_result :: "string option \<Rightarrow> string option" where
  "kw_result kw = (if kw_truthy kw then kw else None)"

text \<open>
  The keywords of the rows, in row order, before repeats are removed: what the rows
  contribute under the row rule.
\<close>

definition row_keywords :: "dataframe \<Rightarrow> string list" where
  "row_keywords df = List.map_filter (first_usable (candidate_cols (columns df))) (rows df)"

text \<open>A row in which every failing read has been replaced by the value \<open>None\<close>.\<close>

definition recover :: "series \<Rightarrow> series" where
  "recover row = map (\<lambda>(c, a). (c, case a of Inl e \<Rightarrow> Inr PNone | Inr v \<Rightarrow> Inr v)) row"

text \<open>
  The exception a tier ends with, of its call or of the extraction of the returned
  table, and the keywords it contributes: none when it ends with an exception.
\<close>

definition tier_error :: "exn + dataframe option \<Rightarrow> exn option" where
  "tier_error outcome =
     (case outcome of
        Inl e \<Rightarrow> Some e
      | Inr df \<Rightarrow>
          (case safe_extract_keywords_from_df df of Inl e \<Rightarrow> Some e | Inr kws \<Rightarrow> None))"

definition tier_keywords :: "exn + dataframe option \<Rightarrow> string list" where
  "tier_keywords outcome =
     (case outcome of
        Inl e \<Rightarrow> []
      | Inr df \<Rightarrow>
          (case safe_extract_keywords_from_df df of Inl e \<Rightarrow> [] | Inr kws \<Rightarrow> kws))"

text \<open>
  The calls that belong to the keyword-biased approximation.
\<close>

fun is_experimental_call :: "call \<Rightarrow> bool" where
  "is_experimental_call (BuildPayload kws tf geo gprop) = True"
| "is_experimental_call RelatedQueries = True"
| "is_experimental_call Construct = False"
| "is_experimental_call (Realtime pn) = False"
| "is_experimental_call (Trending pn) = False"
| "is_experimental_call (Daily pn date) = False"

text \<open>
  The record that lines 233 to 235 build for one keyword.
\<close>

definition kw_item :: "string \<Rightarrow> string \<Rightarrow> json" where
  "kw_item today kw =
     JDict [(''date'', JVal (PStr today)), (''keyword'', JVal (PStr kw)),
            (''traffic'', JVal (PStr []))]"

section \<open>Example runs\<close>

text \<open>
  The table of the end-to-end scenario, a table whose label occurs twice, a source that
  refuses the first tier and answers the second, a source whose first tier returns the
  table with the repeated label, a source on which every tier fails or is empty, tables
  of rising queries, and command lines for them.
\<close>

definition repeated_label_table :: dataframe where
  "repeated_label_table =
     \<lparr>columns = [Name ''title'', Name ''title''],
      rows = [[(Name ''title'', Inr (PStr ''a'')), (Name ''title'', Inr (PStr ''b''))]]\<rparr>"

definition numeric_table :: dataframe where
  "numeric_table =
     \<lparr>columns = [Name ''query'', Name ''value''],
      rows = [[(Name ''query'', Inr (PNpInt 2024)), (Name ''value'', Inr (PNpInt 100))]]\<rparr>"

definition concert_table :: dataframe where
  "concert_table =
     \<lparr>columns = [Name ''title''],
      rows = [[(Name ''title'', Inr (PStr ''Concert A''))],
              [(Name ''title'', Inr (PStr ''Concert A''))]]\<rparr>"

definition rate_limited_client :: client where
  "rate_limited_client =
     \<lparr>build_payload = (\<lambda>kws tf geo gprop. Some (ResponseError ''429'')),
      related_queries = Inl (ResponseError ''429''),
      realtime_trending_searches = (\<lambda>pn. Inl (ResponseError ''429'')),
      trending_searches = (\<lambda>pn. Inr (Some concert_table)),
      daily_search_trends = (\<lambda>pn date. Inl (OtherError ''no such method''))\<rparr>"

definition blocked_client :: client where
  "blocked_client =
     \<lparr>build_payload = (\<lambda>kws tf geo gprop. Some (ResponseError ''429'')),
      related_queries = Inl (ResponseError ''429''),
      realtime_trending_searches = (\<lambda>pn. Inl (ResponseError ''429'')),
      trending_searches = (\<lambda>pn. Inr None),
      daily_search_trends = (\<lambda>pn date. Inl (OtherError ''no such method''))\<rparr>"

definition repeated_label_client :: client where
  "repeated_label_client =
     \<lparr>build_payload = (\<lambda>kws tf geo gprop. None),
      related_queries = Inl (ResponseError ''429''),
      realtime_trending_searches = (\<lambda>pn. Inr (Some repeated_label_table)),
      trending_searches = (\<lambda>pn. Inr (Some concert_table)),
      daily_search_trends = (\<lambda>pn date. Inl (OtherError ''no such method''))\<rparr>"

definition numeric_world :: world where
  "numeric_world =
     \<lparr>TrendReq = Inr \<lparr>build_payload = (\<lambda>kws tf geo gprop. None),
                       related_queries = Inr [([], [(''rising'', Some numeric_table)])],
                       realtime_trending_searches = (\<lambda>pn. Inr None),
                       trending_searches = (\<lambda>pn. Inr None),
                       daily_search_trends = (\<lambda>pn date. Inr None)\<rparr>,
      today_str = ''2026-01-07''\<rparr>"

definition rate_limited_world :: world where
  "rate_limited_world = \<lparr>TrendReq = Inr rate_limited_client, today_str = ''2026-01-07''\<rparr>"

definition blocked_world :: world where
  "blocked_world = \<lparr>TrendReq = Inr blocked_client, today_str = ''2026-01-07''\<rparr>"

definition rising_table :: dataframe where
  "rising_table =
     \<lparr>columns = [Name ''query'', Name ''value''],
      rows = [[(Name ''query'', Inr (PStr ''a'')), (Name ''value'', Inr (PInt 100))]]\<rparr>"

definition rising_world :: world where
  "rising_world =
     \<lparr>TrendReq = Inr \<lparr>build_payload = (\<lambda>kws tf geo gprop. None),
                       related_queries = Inr [([], [(''rising'', Some rising_table)])],
                       realtime_trending_searches = (\<lambda>pn. Inr None),
                       trending_searches = (\<lambda>pn. Inr None),
                       daily_search_trends = (\<lambda>pn date. Inr None)\<rparr>,
      today_str = ''2026-01-07''\<rparr>"

definition kr_cli :: cli where
  "kr_cli = \<lparr>arg_region = Some ''KR'', arg_days = Some ''7'', arg_prefer_youtube = False\<rparr>"

definition youtube_cli :: cli where
  "youtube_cli = \<lparr>arg_region = Some ''KR'', arg_days = Some ''7'', arg_prefer_youtube = True\<rparr>"

section \<open>The deduplicator\<close>

lemma uniq_loop_firsts: "uniq_loop ks seen uniq = uniq @ firsts ks seen"
  by (induction ks arbitrary: seen uniq) simp_all

lemma dedup_firsts: "dedup ks = firsts ks {}"
  by (simp add: dedup_def uniq_loop_firsts)

lemma set_firsts: "set (firsts ks seen) = set ks - seen"
  by (induction ks arbitrary: seen) auto

lemma distinct_firsts: "distinct (firsts ks seen)"
  by (induction ks arbitrary: seen) (auto simp: set_firsts)

lemma firsts_fixed: "distinct ks \<Longrightarrow> set ks \<inter> seen = {} \<Longrightarrow> firsts ks seen = ks"
  by (induction ks arbitrary: seen) auto

lemma firsts_index:
  "firsts ks seen = map (nth ks) (filter (\<lambda>i. ks ! i \<notin> seen \<union> set (take i ks)) [0..<length ks])"
proof (induction ks arbitrary: seen)
  case Nil
  show ?case by simp
next
  case (Cons k ks)
  have shift: "[0..<Suc (length ks)] = 0 # map Suc [0..<length ks]"
    by (simp add: upt_conv_Cons map_Suc_upt del: upt_Suc)
  show ?case
  proof (cases "k \<in> seen")
    case True
    then have eq: "\<And>y Q. (y \<notin> seen \<and> y \<noteq> k \<and> Q) = (y \<notin> seen \<and> Q)" by auto
    show ?thesis using True Cons.IH [of seen]
      by (simp add: shift filter_map o_def eq del: upt_Suc)
  next
    case False
    then show ?thesis using Cons.IH [of "insert k seen"]
      by (simp add: shift filter_map o_def conj_ac del: upt_Suc)
  qed
qed

text \<open>
  Claim C8. The deduplicator (the loop of lines 93 to 100) keeps exactly the entries that
  do not occur earlier in the list, in their order: the result has no repeats and the same
  values, removing repeats twice is the same as removing them once, and
  \<open>["a","b","a","c","b"]\<close> becomes \<open>["a","b","c"]\<close>.
\<close>

theorem dedup_keeps_first_occurrences:
  "dedup xs = map (nth xs) (filter (\<lambda>i. xs ! i \<notin> set (take i xs)) [0..<length xs])
   \<and> distinct (dedup xs) \<and> set (dedup xs) = set xs
   \<and> dedup (dedup xs) = dedup xs
   \<and> dedup [''a'', ''b'', ''a'', ''c'', ''b''] = [''a'', ''b'', ''c'']"
proof -
  have a: "dedup xs = map (nth xs) (filter (\<lambda>i. xs ! i \<notin> set (take i xs)) [0..<length xs])"
    using firsts_index [of xs "{}"] by (simp add: dedup_firsts)
  have b: "distinct (dedup xs)" by (simp add: dedup_firsts distinct_firsts)
  have c: "set (dedup xs) = set xs" by (simp add: dedup_firsts set_firsts)
  have d: "dedup (dedup xs) = dedup xs"
    by (simp add: dedup_firsts firsts_fixed distinct_firsts)
  have e: "dedup [''a'', ''b'', ''a'', ''c'', ''b''] = [''a'', ''b'', ''c'']"
    by (simp add: dedup_def)
  from a b c d e show ?thesis by blast
qed

section \<open>The extractor\<close>

lemmas eval_extract =
  safe_extract_keywords_from_df_def df_empty_def raw_keywords_def candidate_cols_def
  preferred_def series_get_def hits_def strip_def py_isspace_def dedup_def Let_def

lemmas eval_args =
  parse_args_def parse_args_basic_def region_choices_def py_int_def int_isspace_def
  int_max_str_digits_def is_digit_def dict_get_def REGION_GEO_MAP_def REGION_PN_MAP_def

lemma hits_Nil: "hits [] c = []"
  by (simp add: hits_def)

lemma hits_Cons: "hits (p # row) c = (if fst p = c then snd p # hits row c else hits row c)"
  by (simp add: hits_def)

lemma hits_member: "a \<in> set (hits row c) \<Longrightarrow> (c, a) \<in> set row"
  by (auto simp: hits_def)

lemma hits_absent: "c \<notin> fst ` set row \<Longrightarrow> hits row c = []"
  by (auto simp: hits_def filter_empty_conv)

lemma hits_distinct:
  "distinct (map fst row) \<Longrightarrow> hits row c = [] \<or> (\<exists>a. hits row c = [a])"
  by (induction row) (auto simp: hits_Nil hits_Cons hits_absent)

lemma scan_candidates_cell:
  "scan_candidates row kw (c # cs) =
     (case truth (cell row c) of
        Inl e \<Rightarrow> Inl e
      | Inr b \<Rightarrow>
          if b then
            (if strip (py_str (cell row c)) \<noteq> [] then Inr (Some (strip (py_str (cell row c))))
             else scan_candidates row (Some (strip (py_str (cell row c)))) cs)
          else scan_candidates row kw cs)"
  by (simp add: cell_def Let_def split: sum.splits)

lemma plain_cell: "plain_row row \<Longrightarrow> definite (cell row c)"
proof -
  assume p: "plain_row row"
  then have d: "distinct (map fst row)" by (simp add: plain_row_def)
  from hits_distinct [OF d, of c] show ?thesis
  proof
    assume "hits row c = []"
    then show ?thesis by (simp add: cell_def series_get_def definite_def)
  next
    assume "\<exists>a. hits row c = [a]"
    then obtain a where a: "hits row c = [a]" by blast
    then have "(c, a) \<in> set row" using hits_member [of a row c] by simp
    with p have "entry_ok (c, a)" by (auto simp: plain_row_def list_all_iff)
    with a show ?thesis
      by (cases a) (simp_all add: cell_def series_get_def definite_def entry_ok_def)
  qed
qed

lemma definite_truth: "definite v \<Longrightarrow> truth v = Inr (truthy v)"
  by (cases v) (simp_all add: definite_def truthy_def)

lemma scan_candidates_plain:
  "plain_row row \<Longrightarrow> \<not> kw_truthy kw \<Longrightarrow>
   \<exists>r. scan_candidates row kw cs = Inr r \<and> kw_result r = first_usable cs row"
proof (induction cs arbitrary: kw)
  case Nil
  then show ?case by (simp add: kw_result_def)
next
  case (Cons c cs)
  have t: "truth (cell row c) = Inr (truthy (cell row c))"
    by (rule definite_truth [OF plain_cell [OF Cons.prems(1)]])
  show ?case
  proof (cases "usable (cell row c)")
    case None
    then show ?thesis
      using Cons.IH [OF Cons.prems(1), of kw] Cons.IH [OF Cons.prems(1), of "Some []"]
        Cons.prems(2)
      by (auto simp: scan_candidates_cell t usable_def simp del: scan_candidates.simps(2)
          split: if_splits)
  next
    case (Some s)
    then show ?thesis
      by (auto simp: scan_candidates_cell t usable_def kw_result_def
          simp del: scan_candidates.simps(2) split: if_splits)
  qed
qed

lemma collect_rows_plain:
  "list_all plain_row rs \<Longrightarrow>
   collect_rows cands rs out = Inr (out @ List.map_filter (first_usable cands) rs)"
proof (induction rs arbitrary: out)
  case Nil
  show ?case by simp
next
  case (Cons r rs)
  then have p: "plain_row r" and ps: "list_all plain_row rs" by simp_all
  obtain k where k: "scan_candidates r None cands = Inr k"
    and kr: "kw_result k = first_usable cands r"
    using scan_candidates_plain [OF p, of None cands] by auto
  show ?case
  proof (cases "kw_truthy k")
    case True
    then obtain s where s: "k = Some s" by (cases k) auto
    with True kr have "first_usable cands r = Some s" by (simp add: kw_result_def)
    then show ?thesis using True s k Cons.IH [OF ps] by simp
  next
    case False
    with kr have "first_usable cands r = None" by (simp add: kw_result_def)
    then show ?thesis using False k Cons.IH [OF ps] by simp
  qed
qed

lemma raw_keywords_plain: "plain df \<Longrightarrow> raw_keywords df = Inr (row_keywords df)"
  by (simp add: raw_keywords_def row_keywords_def plain_def collect_rows_plain)

lemma collect_rows_no_candidates: "collect_rows [] rs out = Inr out"
  by (induction rs arbitrary: out) simp_all

lemma raw_keywords_empty: "df_empty df \<Longrightarrow> raw_keywords df = Inr []"
  by (auto simp: df_empty_def raw_keywords_def candidate_cols_def preferred_def
      collect_rows_no_candidates)

lemma extract_raw:
  "safe_extract_keywords_from_df (Some df) =
     (case raw_keywords df of Inl e \<Rightarrow> Inl e | Inr out \<Rightarrow> Inr (dedup out))"
  by (simp add: safe_extract_keywords_from_df_def raw_keywords_empty dedup_def)

lemma extract_plain:
  "plain df \<Longrightarrow> safe_extract_keywords_from_df (Some df) = Inr (dedup (row_keywords df))"
  by (simp add: extract_raw raw_keywords_plain)

lemma extract_distinct: "safe_extract_keywords_from_df dfo = Inr ks \<Longrightarrow> distinct ks"
  by (cases dfo)
     (auto simp: safe_extract_keywords_from_df_def dedup_firsts distinct_firsts
        split: if_splits sum.splits)

lemma map_filter_append:
  "List.map_filter f (xs @ ys) = List.map_filter f xs @ List.map_filter f ys"
  by (simp add: List.map_filter_def)

lemma hits_recover:
  "hits (recover row) c =
     map (\<lambda>a. case a of Inl e \<Rightarrow> Inr PNone | Inr v \<Rightarrow> Inr v) (hits row c)"
  by (induction row) (auto simp: hits_Nil hits_Cons recover_def)

lemma cell_recover: "cell (recover row) c = cell row c"
proof (cases "hits row c")
  case Nil
  then show ?thesis by (simp add: cell_def series_get_def hits_recover)
next
  case (Cons a as)
  then show ?thesis
    by (cases as; cases a) (simp_all add: cell_def series_get_def hits_recover)
qed

lemma scan_candidates_recover:
  "scan_candidates (recover row) kw cs = scan_candidates row kw cs"
  by (induction cs arbitrary: kw)
     (simp_all add: scan_candidates_cell cell_recover split: sum.splits del: scan_candidates.simps(2))

lemma collect_rows_recover:
  "collect_rows cands (map recover rs) out = collect_rows cands rs out"
  by (induction rs arbitrary: out) (simp_all add: scan_candidates_recover split: sum.splits)

lemma cell_all_failing:
  assumes "distinct (map fst row)" and "list_all (\<lambda>p. isl (snd p)) row"
  shows "cell row c = PNone"
proof -
  from hits_distinct [OF assms(1), of c] show ?thesis
  proof
    assume "hits row c = []"
    then show ?thesis by (simp add: cell_def series_get_def)
  next
    assume "\<exists>a. hits row c = [a]"
    then obtain a where a: "hits row c = [a]" by blast
    then have "(c, a) \<in> set row" using hits_member [of a row c] by simp
    with assms(2) have "isl a" by (auto simp: list_all_iff)
    with a show ?thesis by (cases a) (simp_all add: cell_def series_get_def)
  qed
qed

lemma scan_candidates_all_failing:
  assumes "distinct (map fst row)" and "list_all (\<lambda>p. isl (snd p)) row"
  shows "scan_candidates row kw cs = Inr kw"
  by (induction cs arbitrary: kw)
     (simp_all add: scan_candidates_cell cell_all_failing [OF assms] del: scan_candidates.simps(2))

lemma collect_rows_skip:
  assumes "distinct (map fst bad)" and "list_all (\<lambda>p. isl (snd p)) bad"
  shows "collect_rows cands (rs1 @ bad # rs2) out = collect_rows cands (rs1 @ rs2) out"
  by (induction rs1 arbitrary: out)
     (simp_all add: scan_candidates_all_failing [OF assms] split: sum.splits)

lemma concert_keywords:
  "safe_extract_keywords_from_df (Some concert_table) = Inr [''Concert A'']"
  by (simp add: concert_table_def eval_extract)

lemma repeated_label_raises:
  "safe_extract_keywords_from_df (Some repeated_label_table)
     = Inl (ValueError ''The truth value of a Series is ambiguous'')"
  by (simp add: repeated_label_table_def eval_extract)

text \<open>
  Claim C2, as the specification states it: the extractor removes no repeats, so a keyword
  that occurs in two rows occurs twice in its output. On the two-row table of the
  end-to-end scenario the extractor returns the keyword once.
\<close>

theorem extractor_repeats_counterexample:
  "safe_extract_keywords_from_df
     (Some \<lparr>columns = [Name ''title''],
            rows = [[(Name ''title'', Inr (PStr ''Concert A''))],
                    [(Name ''title'', Inr (PStr ''Concert A''))]]\<rparr>) = Inr [''Concert A'']
   \<and> safe_extract_keywords_from_df
     (Some \<lparr>columns = [Name ''title''],
            rows = [[(Name ''title'', Inr (PStr ''Concert A''))],
                    [(Name ''title'', Inr (PStr ''Concert A''))]]\<rparr>)
       \<noteq> Inr [''Concert A'', ''Concert A'']"
  by (simp add: eval_extract)

text \<open>
  Claim C2, amended. Whenever the extractor returns a list for a table, that list is the
  list \<open>out\<close> of line 92 with every entry that occurs earlier in \<open>out\<close> left out: the
  keywords stand in the order of their first appearance, the same keywords occur, and none
  occurs twice. On a plain table \<open>out\<close> holds, row by row, the first usable value among
  the candidate columns.
\<close>

theorem extractor_dedups_in_row_order:
  assumes "safe_extract_keywords_from_df (Some df) = Inr ks"
  shows "distinct ks
       \<and> (\<exists>out. raw_keywords df = Inr out \<and> set ks = set out
             \<and> ks = map (nth out) (filter (\<lambda>i. out ! i \<notin> set (take i out)) [0..<length out]))
       \<and> (plain df \<longrightarrow> raw_keywords df = Inr (row_keywords df))"
proof -
  from assms obtain out where out: "raw_keywords df = Inr out" and ks: "ks = dedup out"
    by (auto simp: extract_raw split: sum.splits)
  have i: "ks = map (nth out) (filter (\<lambda>i. out ! i \<notin> set (take i out)) [0..<length out])"
    using firsts_index [of out "{}"] by (simp add: ks dedup_firsts)
  have s: "set ks = set out" by (simp add: ks dedup_firsts set_firsts)
  have d: "distinct ks" by (simp add: ks dedup_firsts distinct_firsts)
  from out i s d show ?thesis by (auto simp: raw_keywords_plain)
qed

theorem extractor_dedups_witness:
  "safe_extract_keywords_from_df (Some concert_table) = Inr [''Concert A'']
   \<and> raw_keywords concert_table = Inr [''Concert A'', ''Concert A'']
   \<and> distinct [''Concert A'']"
proof -
  have a: "raw_keywords concert_table = Inr [''Concert A'', ''Concert A'']"
    by (simp add: concert_table_def eval_extract)
  from extractor_dedups_in_row_order [OF concert_keywords] a concert_keywords
  show ?thesis by simp
qed

text \<open>
  Claim C6, as the specification states it: the extractor never raises, for every input.
  The truth test of line 86 is outside the \<open>try\<close> of lines 82 to 85; on a table whose
  label occurs twice \<open>row.get\<close> returns a nested series, the truth test raises, and the
  exception leaves the extractor.
\<close>

theorem extractor_raises_counterexample:
  "safe_extract_keywords_from_df
     (Some \<lparr>columns = [Name ''title'', Name ''title''],
            rows = [[(Name ''title'', Inr (PStr ''a'')), (Name ''title'', Inr (PStr ''b''))]]\<rparr>)
     = Inl (ValueError ''The truth value of a Series is ambiguous'')"
  by (simp add: eval_extract)

text \<open>
  Claim C6, amended. An absent table and a table without rows give the empty list. On
  every plain table (no repeated label, every value read has a truth value) the
  extractor returns a list. An exception of \<open>row.get\<close> is caught and counts exactly as the
  value \<open>None\<close>, on every table; and a row on which every read raises contributes nothing
  and leaves the extraction of the rows before and after it as it is.
\<close>

theorem extractor_defensive:
  assumes "plain df" and "distinct (map fst bad)" and "list_all (\<lambda>p. isl (snd p)) bad"
  shows "safe_extract_keywords_from_df None = Inr []
   \<and> safe_extract_keywords_from_df (Some \<lparr>columns = cols, rows = []\<rparr>) = Inr []
   \<and> safe_extract_keywords_from_df (Some df) = Inr (dedup (row_keywords df))
   \<and> safe_extract_keywords_from_df (Some (t\<lparr>rows := map recover (rows t)\<rparr>))
       = safe_extract_keywords_from_df (Some t)
   \<and> safe_extract_keywords_from_df (Some (t\<lparr>rows := rs1 @ bad # rs2\<rparr>))
       = safe_extract_keywords_from_df (Some (t\<lparr>rows := rs1 @ rs2\<rparr>))"
proof -
  have a: "safe_extract_keywords_from_df None = Inr []"
    by (simp add: safe_extract_keywords_from_df_def)
  have b: "safe_extract_keywords_from_df (Some \<lparr>columns = cols, rows = []\<rparr>) = Inr []"
    by (simp add: safe_extract_keywords_from_df_def df_empty_def)
  have c: "safe_extract_keywords_from_df (Some df) = Inr (dedup (row_keywords df))"
    by (rule extract_plain [OF assms(1)])
  have d: "safe_extract_keywords_from_df (Some (t\<lparr>rows := map recover (rows t)\<rparr>))
       = safe_extract_keywords_from_df (Some t)"
    by (simp add: extract_raw raw_keywords_def collect_rows_recover)
  have e: "safe_extract_keywords_from_df (Some (t\<lparr>rows := rs1 @ bad # rs2\<rparr>))
       = safe_extract_keywords_from_df (Some (t\<lparr>rows := rs1 @ rs2\<rparr>))"
    by (simp add: extract_raw raw_keywords_def collect_rows_skip [OF assms(2,3)])
  from a b c d e show ?thesis by blast
qed

theorem extractor_defensive_witness:
  "plain \<lparr>columns = [Name ''title''],
          rows = [[(Name ''title'', Inr (PStr ''Concert A''))],
                  [(Name ''title'', Inl (KeyError ''title''))],
                  [(Name ''title'', Inr (PStr ''Concert B''))]]\<rparr>
   \<and> safe_extract_keywords_from_df
       (Some \<lparr>columns = [Name ''title''],
              rows = [[(Name ''title'', Inr (PStr ''Concert A''))],
                      [(Name ''title'', Inl (KeyError ''title''))],
                      [(Name ''title'', Inr (PStr ''Concert B''))]]\<rparr>)
     = Inr [''Concert A'', ''Concert B'']
   \<and> safe_extract_keywords_from_df
       (Some \<lparr>columns = [Name ''title''],
              rows = [[(Name ''title'', Inr (PStr ''Concert A''))],
                      [(Name ''title'', Inr (PStr ''Concert B''))]]\<rparr>)
     = Inr [''Concert A'', ''Concert B'']"
proof -
  let ?bad = "[(Name ''title'', Inl (KeyError ''title''))]"
  let ?df = "\<lparr>columns = [Name ''title''],
          rows = [[(Name ''title'', Inr (PStr ''Concert A''))], ?bad,
                  [(Name ''title'', Inr (PStr ''Concert B''))]]\<rparr>"
  have p: "plain ?df"
    by (simp add: plain_def plain_row_def entry_ok_def definite_def)
  have h1: "distinct (map fst ?bad)" by simp
  have h2: "list_all (\<lambda>p. isl (snd p)) ?bad" by simp
  have v: "safe_extract_keywords_from_df
       (Some \<lparr>columns = [Name ''title''],
              rows = [[(Name ''title'', Inr (PStr ''Concert A''))],
                      [(Name ''title'', Inr (PStr ''Concert B''))]]\<rparr>)
     = Inr [''Concert A'', ''Concert B'']"
    by (simp add: eval_extract)
  have "safe_extract_keywords_from_df
          (Some (\<lparr>columns = [Name ''title''], rows = []\<rparr>
                   \<lparr>rows := [[(Name ''title'', Inr (PStr ''Concert A''))]] @ ?bad #
                             [[(Name ''title'', Inr (PStr ''Concert B''))]]\<rparr>))
        = safe_extract_keywords_from_df
          (Some (\<lparr>columns = [Name ''title''], rows = []\<rparr>
                   \<lparr>rows := [[(Name ''title'', Inr (PStr ''Concert A''))]] @
                             [[(Name ''title'', Inr (PStr ''Concert B''))]]\<rparr>))"
    using extractor_defensive [OF p h1 h2] by blast
  with p v show ?thesis by simp
qed

text \<open>
  Claim C9, as the specification states it: for every table without the preferred names
  whose first column holds keyword strings, the extractor recovers them. On a table whose
  first label occurs twice the extractor raises instead.
\<close>

theorem fallback_column_counterexample:
  "set preferred \<inter> set [Name ''x'', Name ''x''] = {}
   \<and> safe_extract_keywords_from_df
     (Some \<lparr>columns = [Name ''x'', Name ''x''],
            rows = [[(Name ''x'', Inr (PStr ''a'')), (Name ''x'', Inr (PStr ''b''))]]\<rparr>)
     = Inl (ValueError ''The truth value of a Series is ambiguous'')"
  by (simp add: eval_extract)

text \<open>
  Claim C9, amended. On a plain table with none of the names \<open>query\<close>, \<open>title\<close>,
  \<open>keyword\<close>, the first column is the only candidate: each row contributes the trimmed
  text of its first-column value when that value is true and the text is not empty, and
  is skipped otherwise; the output holds exactly these texts, in row order, first
  occurrences only.
\<close>

theorem fallback_column_recovers:
  assumes "columns df \<noteq> []" and "set preferred \<inter> set (columns df) = {}" and "plain df"
  shows "safe_extract_keywords_from_df (Some df)
           = Inr (dedup (List.map_filter (\<lambda>row. usable (cell row (hd (columns df)))) (rows df)))
         \<and> set (dedup (List.map_filter (\<lambda>row. usable (cell row (hd (columns df)))) (rows df)))
           = {s. \<exists>row \<in> set (rows df). usable (cell row (hd (columns df))) = Some s}"
proof -
  have "filter (\<lambda>c. c \<in> set (columns df)) preferred = []"
    using assms(2) by (auto simp: filter_empty_conv)
  then have cands: "candidate_cols (columns df) = [hd (columns df)]"
    using assms(1) by (simp add: candidate_cols_def)
  have fu: "first_usable [hd (columns df)] = (\<lambda>row. usable (cell row (hd (columns df))))"
    by (rule ext) (simp split: option.splits)
  have eq: "safe_extract_keywords_from_df (Some df)
           = Inr (dedup (List.map_filter (\<lambda>row. usable (cell row (hd (columns df)))) (rows df)))"
    by (simp add: extract_plain [OF assms(3)] row_keywords_def cands fu)
  have "set (List.map_filter f xs) = {s. \<exists>x \<in> set xs. f x = Some s}"
    for f :: "series \<Rightarrow> string option" and xs
    by (force simp: List.map_filter_def image_iff)
  then show ?thesis using eq by (simp add: dedup_firsts set_firsts)
qed

theorem fallback_column_witness:
  "plain \<lparr>columns = [Pos 0], rows = [[(Pos 0, Inr (PStr '' Concert A ''))],
                                       [(Pos 0, Inr PNone)],
                                       [(Pos 0, Inr (PStr ''Concert B''))]]\<rparr>
   \<and> safe_extract_keywords_from_df
       (Some \<lparr>columns = [Pos 0], rows = [[(Pos 0, Inr (PStr '' Concert A ''))],
                                         [(Pos 0, Inr PNone)],
                                         [(Pos 0, Inr (PStr ''Concert B''))]]\<rparr>)
     = Inr [''Concert A'', ''Concert B'']"
proof -
  let ?df = "\<lparr>columns = [Pos 0], rows = [[(Pos 0, Inr (PStr '' Concert A ''))],
                                         [(Pos 0, Inr PNone)],
                                         [(Pos 0, Inr (PStr ''Concert B''))]]\<rparr>"
  have a: "columns ?df \<noteq> []" by simp
  have b: "set preferred \<inter> set (columns ?df) = {}" by (simp add: preferred_def)
  have p: "plain ?df" by (simp add: plain_def plain_row_def entry_ok_def definite_def)
  from fallback_column_recovers [OF a b p] p show ?thesis
    by (simp add: usable_def truthy_def cell_def series_get_def hits_def strip_def
        py_isspace_def dedup_def)
qed

section \<open>The tiers\<close>

lemma tier_error_keywords: "tier_error outcome = Some e \<Longrightarrow> tier_keywords outcome = []"
  by (auto simp: tier_error_def tier_keywords_def split: sum.splits)

lemma tier_keywords_no_error: "tier_keywords outcome \<noteq> [] \<Longrightarrow> tier_error outcome = None"
  by (auto simp: tier_error_def tier_keywords_def split: sum.splits)

lemma attempt_keywords:
  "fst (attempt name outcome) =
     (if tier_keywords outcome = [] then None else Some (tier_keywords outcome))"
  by (auto simp: attempt_def tier_keywords_def split: sum.splits)

lemma attempt_cases:
  obtains l where "tier_keywords outcome = []" and "attempt name outcome = (None, l)"
    and "\<And>e. tier_error outcome = Some e \<Longrightarrow> LogFailed name e \<in> set l"
  | l where "tier_keywords outcome \<noteq> []"
      and "attempt name outcome = (Some (tier_keywords outcome), l)"
proof (cases "tier_keywords outcome = []")
  case True
  show ?thesis
  proof (cases "tier_error outcome")
    case None
    then show ?thesis using True that(1) [of "[LogAttempt name, LogEmpty name]"]
      by (auto simp: attempt_def tier_keywords_def tier_error_def split: sum.splits)
  next
    case (Some e)
    then show ?thesis using True that(1) [of "[LogAttempt name, LogFailed name e]"]
      by (auto simp: attempt_def tier_keywords_def tier_error_def split: sum.splits)
  qed
next
  case False
  then show ?thesis using that(2)
    by (auto simp: attempt_def tier_keywords_def split: sum.splits)
qed

lemma fetch_none:
  assumes "tier_keywords (realtime_trending_searches p pn) = []"
    and "tier_keywords (trending_searches p pn) = []"
    and "tier_keywords (daily_search_trends p pn today) = []"
  shows "fst (fetch_trending_keywords p pn today) = ([], ''none'')"
  using assms
    attempt_keywords [of "''realtime_trending_searches''" "realtime_trending_searches p pn"]
    attempt_keywords [of "''trending_searches''" "trending_searches p pn"]
    attempt_keywords [of "''daily_search_trends''" "daily_search_trends p pn today"]
  by (auto simp: fetch_trending_keywords_def split: prod.splits option.splits)

lemma fetch_calls_standard:
  "list_all (\<lambda>x. \<not> is_experimental_call x) (snd (snd (fetch_trending_keywords p pn today)))"
  by (auto simp: fetch_trending_keywords_def split: prod.splits option.splits)

lemma fetch_rate_limited:
  "fetch_trending_keywords rate_limited_client pn today =
     (([''Concert A''], ''trending_searches''),
      [LogAttempt ''realtime_trending_searches'',
       LogFailed ''realtime_trending_searches'' (ResponseError ''429''),
       LogAttempt ''trending_searches'', LogSuccess ''trending_searches'' 1],
      [Realtime pn, Trending pn])"
  by (simp add: fetch_trending_keywords_def attempt_def rate_limited_client_def concert_keywords)

lemma fetch_after_extraction_error:
  "fetch_trending_keywords repeated_label_client pn today =
     (([''Concert A''], ''trending_searches''),
      [LogAttempt ''realtime_trending_searches'',
       LogFailed ''realtime_trending_searches''
         (ValueError ''The truth value of a Series is ambiguous''),
       LogAttempt ''trending_searches'', LogSuccess ''trending_searches'' 1],
      [Realtime pn, Trending pn])"
  by (simp add: fetch_trending_keywords_def attempt_def repeated_label_client_def
      concert_keywords repeated_label_raises)

text \<open>
  Claim C3. The tiers are called in the order realtime feed, daily feed, historical
  lookup, and the calls stop at the first tier whose extraction is not empty; that
  extraction is returned with that tier's name. An exception of a tier, raised by its
  call or by the extraction of what it returned, is logged under the tier's name and the
  next tier is called. In particular, when the first tier ends with an exception and the
  second returns usable rows, the result is the second tier's extraction under the second
  tier's name.
\<close>

theorem tiers_tried_in_order:
  fixes pytrends :: client and pn :: string and today :: string
  defines "t1 \<equiv> realtime_trending_searches pytrends pn"
    and "t2 \<equiv> trending_searches pytrends pn"
    and "t3 \<equiv> daily_search_trends pytrends pn today"
    and "r \<equiv> fetch_trending_keywords pytrends pn today"
  shows "fst r =
      (if tier_keywords t1 \<noteq> [] then (tier_keywords t1, ''realtime_trending_searches'')
       else if tier_keywords t2 \<noteq> [] then (tier_keywords t2, ''trending_searches'')
       else if tier_keywords t3 \<noteq> [] then (tier_keywords t3, ''daily_search_trends'')
       else ([], ''none''))
    \<and> snd (snd r) =
      (if tier_keywords t1 \<noteq> [] then [Realtime pn]
       else if tier_keywords t2 \<noteq> [] then [Realtime pn, Trending pn]
       else [Realtime pn, Trending pn, Daily pn today])
    \<and> (\<forall>e. tier_error t1 = Some e \<longrightarrow>
          LogFailed ''realtime_trending_searches'' e \<in> set (fst (snd r))
          \<and> Trending pn \<in> set (snd (snd r)))
    \<and> (\<forall>e. tier_keywords t1 = [] \<and> tier_error t2 = Some e \<longrightarrow>
          LogFailed ''trending_searches'' e \<in> set (fst (snd r))
          \<and> Daily pn today \<in> set (snd (snd r)))
    \<and> (\<forall>e. tier_keywords t1 = [] \<and> tier_keywords t2 = [] \<and> tier_error t3 = Some e \<longrightarrow>
          LogFailed ''daily_search_trends'' e \<in> set (fst (snd r)) \<and> fst r = ([], ''none''))
    \<and> (\<forall>e df ks. tier_error t1 = Some e \<and> t2 = Inr df
          \<and> safe_extract_keywords_from_df df = Inr ks \<and> ks \<noteq> [] \<longrightarrow>
          fst r = (ks, ''trending_searches''))"
proof -
  consider
    (a) l1 where "tier_keywords t1 \<noteq> []"
      "attempt ''realtime_trending_searches'' t1 = (Some (tier_keywords t1), l1)"
  | (b) l1 l2 where "tier_keywords t1 = []"
      "attempt ''realtime_trending_searches'' t1 = (None, l1)"
      "\<And>e. tier_error t1 = Some e \<Longrightarrow> LogFailed ''realtime_trending_searches'' e \<in> set l1"
      "tier_keywords t2 \<noteq> []"
      "attempt ''trending_searches'' t2 = (Some (tier_keywords t2), l2)"
  | (c) l1 l2 l3 where "tier_keywords t1 = []"
      "attempt ''realtime_trending_searches'' t1 = (None, l1)"
      "\<And>e. tier_error t1 = Some e \<Longrightarrow> LogFailed ''realtime_trending_searches'' e \<in> set l1"
      "tier_keywords t2 = []"
      "attempt ''trending_searches'' t2 = (None, l2)"
      "\<And>e. tier_error t2 = Some e \<Longrightarrow> LogFailed ''trending_searches'' e \<in> set l2"
      "tier_keywords t3 \<noteq> []"
      "attempt ''daily_search_trends'' t3 = (Some (tier_keywords t3), l3)"
  | (d) l1 l2 l3 where "tier_keywords t1 = []"
      "attempt ''realtime_trending_searches'' t1 = (None, l1)"
      "\<And>e. tier_error t1 = Some e \<Longrightarrow> LogFailed ''realtime_trending_searches'' e \<in> set l1"
      "tier_keywords t2 = []"
      "attempt ''trending_searches'' t2 = (None, l2)"
      "\<And>e. tier_error t2 = Some e \<Longrightarrow> LogFailed ''trending_searches'' e \<in> set l2"
      "tier_keywords t3 = []"
      "attempt ''daily_search_trends'' t3 = (None, l3)"
      "\<And>e. tier_error t3 = Some e \<Longrightarrow> LogFailed ''daily_search_trends'' e \<in> set l3"
    by (rule attempt_cases [of t1 "''realtime_trending_searches''"];
        rule attempt_cases [of t2 "''trending_searches''"];
        rule attempt_cases [of t3 "''daily_search_trends''"]) blast+
  then show ?thesis
  proof cases
    case a
    then show ?thesis
      using tier_keywords_no_error [of t1]
      by (auto simp: r_def fetch_trending_keywords_def t1_def [symmetric])
  next
    case b
    then show ?thesis
      using tier_keywords_no_error [of t2]
      by (auto simp: r_def fetch_trending_keywords_def t1_def [symmetric] t2_def [symmetric]
          tier_keywords_def)
  next
    case c
    then show ?thesis
      using tier_keywords_no_error [of t3]
      by (auto simp: r_def fetch_trending_keywords_def t1_def [symmetric] t2_def [symmetric]
          t3_def [symmetric] tier_keywords_def)
  next
    case d
    then show ?thesis
      by (auto simp: r_def fetch_trending_keywords_def t1_def [symmetric] t2_def [symmetric]
          t3_def [symmetric] tier_keywords_def)
  qed
qed

theorem tiers_tried_in_order_witness:
  "fst (fetch_trending_keywords rate_limited_client ''south_korea'' ''2026-01-07'')
     = ([''Concert A''], ''trending_searches'')
   \<and> snd (snd (fetch_trending_keywords rate_limited_client ''south_korea'' ''2026-01-07''))
     = [Realtime ''south_korea'', Trending ''south_korea'']
   \<and> LogFailed ''realtime_trending_searches'' (ResponseError ''429'')
       \<in> set (fst (snd (fetch_trending_keywords rate_limited_client ''south_korea'' ''2026-01-07'')))"
proof -
  have t1: "realtime_trending_searches rate_limited_client ''south_korea'' = Inl (ResponseError ''429'')"
    by (simp add: rate_limited_client_def)
  have t2: "trending_searches rate_limited_client ''south_korea'' = Inr (Some concert_table)"
    by (simp add: rate_limited_client_def)
  show ?thesis
    using tiers_tried_in_order [of rate_limited_client "''south_korea''" "''2026-01-07''"]
    by (simp add: t1 t2 tier_keywords_def tier_error_def concert_keywords)
qed

section \<open>The two programs\<close>

lemma fill_result_map:
  "fill_result today kws (its, ks) =
     (its @ map (kw_item today) kws, ks @ map (\<lambda>kw. JVal (PStr kw)) kws)"
  by (induction kws arbitrary: its ks) (simp_all add: kw_item_def)

lemma keyword_doc_serialisable:
  "serialisable (result_doc r d (map (kw_item today) k) (map (\<lambda>kw. JVal (PStr kw)) k))"
  by (simp add: result_doc_def kw_item_def list_all_iff)

lemma emit_keyword_doc:
  "emit (result_doc r d (map (kw_item today) k) (map (\<lambda>kw. JVal (PStr kw)) k)) l cs =
     \<lparr>exit_code = 0,
      stdout = [result_doc r d (map (kw_item today) k) (map (\<lambda>kw. JVal (PStr kw)) k)],
      stderr = l, network = cs\<rparr>"
  by (simp add: emit_def keyword_doc_serialisable)

lemma emit_stdout:
  "stdout (emit doc l cs) = [] \<and> exit_code (emit doc l cs) = 1
   \<or> length (stdout (emit doc l cs)) = 1 \<and> exit_code (emit doc l cs) = 0"
  by (simp add: emit_def)

lemma main_parsed:
  "parse_args c = Inr a \<Longrightarrow> py_int (days a) = Some d \<Longrightarrow> main c w = main_body a d w"
  by (simp add: main_def)

lemma main_usage: "parse_args c = Inl u \<Longrightarrow>
   main c w = \<lparr>exit_code = 2, stdout = [], stderr = [LogUsage], network = []\<rparr>"
  by (simp add: main_def)

lemma main_days: "parse_args c = Inr a \<Longrightarrow> py_int (days a) = None \<Longrightarrow>
   main c w = \<lparr>exit_code = 1, stdout = [], stderr = [LogTraceback (ValueError (days a))],
                network = []\<rparr>"
  by (simp add: main_def)

lemma main_body_construct_fails:
  "TrendReq w = Inl e \<Longrightarrow>
   main_body a d w = \<lparr>exit_code = 1, stdout = [], stderr = [LogStart (region a), LogFatal e],
                       network = [Construct]\<rparr>"
  by (simp add: main_body_def)

lemma main_body_standard:
  assumes "TrendReq w = Inr p" and "\<not> prefer_youtube a"
    and "fetch_trending_keywords p (dict_get REGION_PN_MAP (region a) ''south_korea'') (today_str w)
           = ((k, s), l, cs)"
  shows "main_body a d w =
     \<lparr>exit_code = 0,
      stdout = [result_doc (region a) d (map (kw_item (today_str w)) k) (map (\<lambda>kw. JVal (PStr kw)) k)],
      stderr = [LogStart (region a)] @ l @ [LogCompleted s (length k)],
      network = [Construct] @ cs\<rparr>"
  using assms by (simp add: main_body_def fill_result_map emit_keyword_doc)

lemma main_body_fall_through:
  assumes "TrendReq w = Inr p" and "prefer_youtube a"
    and "experimental_step p (dict_get REGION_GEO_MAP (region a) ''KR'') d = ([], s1, l1, c1)"
    and "fetch_trending_keywords p (dict_get REGION_PN_MAP (region a) ''south_korea'') (today_str w)
           = ((k, s), l, cs)"
  shows "main_body a d w =
     \<lparr>exit_code = 0,
      stdout = [result_doc (region a) d (map (kw_item (today_str w)) k) (map (\<lambda>kw. JVal (PStr kw)) k)],
      stderr = [LogStart (region a)] @ l1 @ l @ [LogCompleted s (length k)],
      network = [Construct] @ c1 @ cs\<rparr>"
  using assms by (simp add: main_body_def fill_result_map emit_keyword_doc)

lemma experimental_step_calls:
  "snd (snd (snd (experimental_step p geo d)))
     = snd (snd (fetch_youtube_like_keywords_experimental p geo d))"
  by (auto simp: experimental_step_def split: prod.splits sum.splits exn.splits)

lemma experimental_step_failed:
  "fst (fetch_youtube_like_keywords_experimental p geo d) = Inl e \<Longrightarrow>
   fst (experimental_step p geo d) = []"
  by (auto simp: experimental_step_def split: prod.splits sum.splits exn.splits)

lemma experimental_step_keywords:
  "fst (fetch_youtube_like_keywords_experimental p geo d) = Inr k \<Longrightarrow>
   fst (experimental_step p geo d) = k"
  by (auto simp: experimental_step_def split: prod.splits sum.splits exn.splits)

lemma main_body_stdout:
  "stdout (main_body a d w) = [] \<and> exit_code (main_body a d w) = 1
   \<or> length (stdout (main_body a d w)) = 1 \<and> exit_code (main_body a d w) = 0"
  using emit_stdout
  by (auto simp: main_body_def Let_def split: sum.splits prod.splits)

lemma main_basic_body_stdout:
  "stdout (main_basic_body a d w) = [] \<and> exit_code (main_basic_body a d w) = 1
   \<or> length (stdout (main_basic_body a d w)) = 1 \<and> exit_code (main_basic_body a d w) = 0"
  using emit_stdout
  by (auto simp: main_basic_body_def fatal_def Let_def split: sum.splits prod.splits option.splits)

lemma main_stdout:
  "stdout (main c w) = [] \<and> exit_code (main c w) \<noteq> 0
   \<or> length (stdout (main c w)) = 1 \<and> exit_code (main c w) = 0"
proof (cases "parse_args c")
  case (Inl u)
  then show ?thesis by (simp add: main_def)
next
  case (Inr a)
  show ?thesis
  proof (cases "py_int (days a)")
    case None
    with Inr show ?thesis by (simp add: main_def)
  next
    case (Some d)
    with Inr main_body_stdout [of a d w] show ?thesis by (auto simp: main_def)
  qed
qed

lemma main_basic_stdout:
  "stdout (main_basic c w) = [] \<and> exit_code (main_basic c w) \<noteq> 0
   \<or> length (stdout (main_basic c w)) = 1 \<and> exit_code (main_basic c w) = 0"
proof (cases "parse_args_basic c")
  case (Inl u)
  then show ?thesis by (simp add: main_basic_def)
next
  case (Inr a)
  show ?thesis
  proof (cases "py_int (days a)")
    case None
    with Inr show ?thesis by (simp add: main_basic_def)
  next
    case (Some d)
    with Inr main_basic_body_stdout [of a d w] show ?thesis by (auto simp: main_basic_def)
  qed
qed

lemma int_str_7: "int_str 7 = ''7''"
  by code_simp

lemma int_str_100: "int_str 100 = ''100''"
  by code_simp

lemma kr_parse: "parse_args kr_cli = Inr \<lparr>region = ''KR'', days = ''7'', prefer_youtube = False\<rparr>"
  by (simp add: kr_cli_def eval_args)

lemma seven: "py_int ''7'' = Some 7"
  by (simp add: eval_args)

lemma separator_seven: "py_int [CHR 0x1C, CHR ''7''] = None"
  by (simp add: eval_args)

lemma parse_args_region:
  "parse_args c = Inr a \<Longrightarrow>
   arg_region c = Some (region a) \<and> region a \<in> set region_choices
   \<and> prefer_youtube a = arg_prefer_youtube c
   \<and> days a = (case arg_days c of None \<Rightarrow> ''7'' | Some s \<Rightarrow> s)"
  by (auto simp: parse_args_def split: option.splits if_splits)

lemma parse_args_basic_region:
  "parse_args_basic c = Inr a \<Longrightarrow> parse_args c = Inr a"
  by (auto simp: parse_args_basic_def split: if_splits)

lemma region_tables:
  "r \<in> set region_choices \<Longrightarrow>
   map_of REGION_GEO_MAP r = Some r \<and> map_of REGION_PN_MAP r \<noteq> None"
  by (auto simp: region_choices_def REGION_GEO_MAP_def REGION_PN_MAP_def)

lemma main_basic_usage: "parse_args_basic c = Inl u \<Longrightarrow>
   main_basic c w = \<lparr>exit_code = 2, stdout = [], stderr = [LogUsage], network = []\<rparr>"
  by (simp add: main_basic_def)

lemma main_basic_days: "parse_args_basic c = Inr a \<Longrightarrow> py_int (days a) = None \<Longrightarrow>
   main_basic c w = \<lparr>exit_code = 1, stdout = [], stderr = [LogTraceback (ValueError (days a))],
                network = []\<rparr>"
  by (simp add: main_basic_def)

lemma main_rejects:
  assumes "(\<exists>r. arg_region c = Some r \<and> r \<notin> set region_choices)
           \<or> (\<exists>s. arg_days c = Some s \<and> py_int s = None)"
  shows "exit_code (main c w) \<noteq> 0 \<and> network (main c w) = [] \<and> stdout (main c w) = []"
proof (cases "parse_args c")
  case (Inl u)
  then show ?thesis by (simp add: main_usage)
next
  case (Inr a)
  from parse_args_region [OF Inr] assms have "py_int (days a) = None" by auto
  with Inr show ?thesis by (simp add: main_days)
qed

lemma main_basic_rejects:
  assumes "(\<exists>r. arg_region c = Some r \<and> r \<notin> set region_choices)
           \<or> (\<exists>s. arg_days c = Some s \<and> py_int s = None)"
  shows "exit_code (main_basic c w) \<noteq> 0 \<and> network (main_basic c w) = []
         \<and> stdout (main_basic c w) = []"
proof (cases "parse_args_basic c")
  case (Inl u)
  then show ?thesis by (simp add: main_basic_usage)
next
  case (Inr a)
  from parse_args_region [OF parse_args_basic_region [OF Inr]] assms
  have "py_int (days a) = None" by auto
  with Inr show ?thesis by (simp add: main_basic_days)
qed

lemma region_default_is_never_taken:
  "(parse_args c = Inr a \<or> parse_args_basic c = Inr a) \<longrightarrow>
     arg_region c = Some (region a)
     \<and> dict_get REGION_GEO_MAP (region a) ''KR'' = region a
     \<and> map_of REGION_PN_MAP (region a) \<noteq> None"
  using parse_args_region [of c a] parse_args_basic_region [of c a] region_tables [of "region a"]
  by (auto simp: dict_get_def)

lemma parse_args_flag_off:
  "parse_args c = Inr a \<Longrightarrow>
   parse_args (c\<lparr>arg_prefer_youtube := False\<rparr>) = Inr (a\<lparr>prefer_youtube := False\<rparr>)"
  by (auto simp: parse_args_def split: option.splits if_splits)

lemma main_network_standard:
  assumes "\<not> arg_prefer_youtube c"
  shows "list_all (\<lambda>x. \<not> is_experimental_call x) (network (main c w))"
proof (cases "parse_args c")
  case (Inl u)
  then show ?thesis by (simp add: main_usage)
next
  case (Inr a)
  note a = parse_args_region [OF Inr]
  show ?thesis
  proof (cases "py_int (days a)")
    case None
    with Inr show ?thesis by (simp add: main_days)
  next
    case (Some d)
    show ?thesis
    proof (cases "TrendReq w")
      case (Inl e)
      with Inr Some show ?thesis by (simp add: main_parsed main_body_construct_fails)
    next
      case (Inr p)
      obtain k s l cs where f:
        "fetch_trending_keywords p (dict_get REGION_PN_MAP (region a) ''south_korea'') (today_str w)
           = ((k, s), l, cs)"
        by (metis prod.exhaust)
      from a assms have np: "\<not> prefer_youtube a" by simp
      have "cs = snd (snd (fetch_trending_keywords p
               (dict_get REGION_PN_MAP (region a) ''south_korea'') (today_str w)))"
        by (simp add: f)
      then have "list_all (\<lambda>x. \<not> is_experimental_call x) cs"
        by (simp only: fetch_calls_standard)
      then show ?thesis
        using main_parsed [OF \<open>parse_args c = Inr a\<close> Some, of w]
          main_body_standard [OF Inr np f, of d]
        by simp
    qed
  qed
qed

lemma youtube_rate_limited:
  "fetch_youtube_like_keywords_experimental rate_limited_client ''KR'' 7 =
     (Inl (ResponseError ''429''), [LogExperimentalAttempt ''youtube'' ''KR'' ''now 7-d''],
      [BuildPayload [''youtube''] ''now 7-d'' ''KR'' ''youtube''])"
  by (simp add: fetch_youtube_like_keywords_experimental_def rate_limited_client_def int_str_7
      Let_def)

lemma main_document_invariant:
  assumes "stdout (main c w) = [doc]"
  shows "length (jlist (jget doc ''items'')) = length (jlist (jget doc ''keywords''))
       \<and> (\<forall>i < length (jlist (jget doc ''items'')).
            jget (jlist (jget doc ''items'') ! i) ''keyword''
              = Some (jlist (jget doc ''keywords'') ! i))"
proof -
  have "\<exists>r d k today. doc = result_doc r d (map (kw_item today) k) (map (\<lambda>kw. JVal (PStr kw)) k)"
    using assms
    by (auto simp: main_def main_body_def fill_result_map emit_keyword_doc Let_def
        split: sum.splits option.splits prod.splits if_splits)
  then show ?thesis by (auto simp: result_doc_def kw_item_def)
qed

lemma query_loop_repeated_label:
  "query_loop [[(Name ''query'', Inr (PStr ''a'')), (Name ''query'', Inr (PStr ''b''))]] []
     = Inl (ValueError ''The truth value of a Series is ambiguous'')"
  by (simp add: series_get_def hits_def)

text \<open>
  Claim C1, on the program of \<open>pytrends_fetch.py\<close>. With one rising query \<open>a\<close> of value 100
  the program exits with status 0 and writes a document whose \<open>keywords\<close> list holds
  the whole item, not the keyword string: line 87 appends \<open>item\<close>. The two lists have the
  same length, but \<open>keywords[0]\<close> is not \<open>items[0].keyword\<close>. The program of
  \<open>pytrends_fetch_DDONG.py\<close> keeps the correspondence (lemma \<open>main_document_invariant\<close>).
\<close>

theorem basic_variant_keywords_hold_items:
  "stdout (main_basic kr_cli rising_world) =
     [result_doc ''KR'' 7
        [JDict [(''date'', JVal (PStr ''2026-01-07'')), (''keyword'', JVal (PStr ''a'')),
                (''traffic'', JVal (PStr ''100''))]]
        [JDict [(''date'', JVal (PStr ''2026-01-07'')), (''keyword'', JVal (PStr ''a'')),
                (''traffic'', JVal (PStr ''100''))]]]
   \<and> exit_code (main_basic kr_cli rising_world) = 0
   \<and> jget (hd (jlist (jget (hd (stdout (main_basic kr_cli rising_world))) ''items''))) ''keyword''
       = Some (JVal (PStr ''a''))
   \<and> hd (jlist (jget (hd (stdout (main_basic kr_cli rising_world))) ''keywords''))
       \<noteq> JVal (PStr ''a'')"
proof -
  have p: "parse_args_basic kr_cli = Inr \<lparr>region = ''KR'', days = ''7'', prefer_youtube = False\<rparr>"
    by (simp add: parse_args_basic_def kr_parse) (simp add: kr_cli_def)
  have m: "main_basic kr_cli rising_world =
     \<lparr>exit_code = 0,
      stdout = [result_doc ''KR'' 7
        [JDict [(''date'', JVal (PStr ''2026-01-07'')), (''keyword'', JVal (PStr ''a'')),
                (''traffic'', JVal (PStr ''100''))]]
        [JDict [(''date'', JVal (PStr ''2026-01-07'')), (''keyword'', JVal (PStr ''a'')),
                (''traffic'', JVal (PStr ''100''))]]],
      stderr = [LogStart ''KR'', LogFound 1],
      network = [Construct, BuildPayload [[]] ''now 7-d'' ''KR'' ''youtube'', RelatedQueries]\<rparr>"
    by (simp add: main_basic_def p seven main_basic_body_def rising_world_def rising_table_def
        rising_of_def df_empty_def series_getitem_def hits_def dict_get_def REGION_GEO_MAP_def
        int_str_100 emit_def result_doc_def Let_def)
  show ?thesis by (simp add: m result_doc_def)
qed

text \<open>
  Claim C4. When every tier ends with an exception or yields an empty extraction, the
  strategy returns the empty list under the name \<open>none\<close>, and the run without the
  approximation flag still exits with status 0 and writes the document with empty
  \<open>items\<close> and \<open>keywords\<close>.
\<close>

theorem all_tiers_exhausted_still_succeeds:
  fixes c :: cli and w :: world and a :: args and d :: int and p :: client
  defines "pn \<equiv> dict_get REGION_PN_MAP (region a) ''south_korea''"
  assumes "parse_args c = Inr a" and "py_int (days a) = Some d" and "TrendReq w = Inr p"
    and "\<not> prefer_youtube a"
    and "tier_keywords (realtime_trending_searches p pn) = []"
    and "tier_keywords (trending_searches p pn) = []"
    and "tier_keywords (daily_search_trends p pn (today_str w)) = []"
  shows "fst (fetch_trending_keywords p pn (today_str w)) = ([], ''none'')
       \<and> exit_code (main c w) = 0
       \<and> stdout (main c w) = [result_doc (region a) d [] []]"
proof -
  have n: "fst (fetch_trending_keywords p pn (today_str w)) = ([], ''none'')"
    by (rule fetch_none [OF assms(6,7,8)])
  then obtain l cs where f: "fetch_trending_keywords p pn (today_str w) = (([], ''none''), l, cs)"
    by (metis prod.collapse)
  show ?thesis
    using n main_parsed [OF assms(2,3), of w]
      main_body_standard [OF assms(4,5) f [unfolded pn_def], of d]
    by simp
qed

theorem all_tiers_exhausted_witness:
  "parse_args kr_cli = Inr \<lparr>region = ''KR'', days = ''7'', prefer_youtube = False\<rparr>
   \<and> exit_code (main kr_cli blocked_world) = 0
   \<and> stdout (main kr_cli blocked_world) = [result_doc ''KR'' 7 [] []]"
proof -
  have w: "TrendReq blocked_world = Inr blocked_client" by (simp add: blocked_world_def)
  show ?thesis
    using all_tiers_exhausted_still_succeeds
      [of kr_cli "\<lparr>region = ''KR'', days = ''7'', prefer_youtube = False\<rparr>" 7
          blocked_world blocked_client, OF kr_parse _ w]
    by (simp add: kr_parse seven tier_keywords_def blocked_client_def
        safe_extract_keywords_from_df_def)
qed

text \<open>
  Claim C5. A region outside \<open>KR\<close>, \<open>US\<close>, \<open>MX\<close>, or a day count that \<open>int\<close> rejects,
  ends either program with a status other than 0 before the source client is constructed
  or called, and nothing is written to standard output. No identifier of any region is
  used in such a run; the defaults of the two table lookups are never taken (lemma
  \<open>region_default_is_never_taken\<close>).
\<close>

theorem usage_errors_fail_before_network:
  assumes "(\<exists>r. arg_region c = Some r \<and> r \<notin> set region_choices)
           \<or> (\<exists>s. arg_days c = Some s \<and> py_int s = None)"
  shows "exit_code (main c w) \<noteq> 0 \<and> network (main c w) = [] \<and> stdout (main c w) = []
       \<and> exit_code (main_basic c w) \<noteq> 0 \<and> network (main_basic c w) = []
       \<and> stdout (main_basic c w) = []"
  using main_rejects [OF assms, of w] main_basic_rejects [OF assms, of w] by simp

theorem usage_errors_witness:
  "''JP'' \<notin> set region_choices
   \<and> exit_code (main \<lparr>arg_region = Some ''JP'', arg_days = Some ''7'',
                       arg_prefer_youtube = False\<rparr> rate_limited_world) = 2
   \<and> network (main \<lparr>arg_region = Some ''JP'', arg_days = Some ''7'',
                      arg_prefer_youtube = False\<rparr> rate_limited_world) = []
   \<and> network (main_basic \<lparr>arg_region = Some ''JP'', arg_days = Some ''7'',
                      arg_prefer_youtube = False\<rparr> rate_limited_world) = []
   \<and> py_int [CHR 0x1C, CHR ''7''] = None
   \<and> exit_code (main \<lparr>arg_region = Some ''KR'', arg_days = Some [CHR 0x1C, CHR ''7''],
                       arg_prefer_youtube = False\<rparr> rate_limited_world) = 1
   \<and> network (main \<lparr>arg_region = Some ''KR'', arg_days = Some [CHR 0x1C, CHR ''7''],
                      arg_prefer_youtube = False\<rparr> rate_limited_world) = []
   \<and> network (main_basic \<lparr>arg_region = Some ''KR'', arg_days = Some [CHR 0x1C, CHR ''7''],
                      arg_prefer_youtube = False\<rparr> rate_limited_world) = []"
proof -
  let ?c1 = "\<lparr>arg_region = Some ''JP'', arg_days = Some ''7'', arg_prefer_youtube = False\<rparr>"
  let ?c2 = "\<lparr>arg_region = Some ''KR'', arg_days = Some [CHR 0x1C, CHR ''7''],
              arg_prefer_youtube = False\<rparr>"
  have h: "''JP'' \<notin> set region_choices" by (simp add: region_choices_def)
  then have h1: "(\<exists>r. arg_region ?c1 = Some r \<and> r \<notin> set region_choices)
      \<or> (\<exists>s. arg_days ?c1 = Some s \<and> py_int s = None)"
    by simp
  have h2: "(\<exists>r. arg_region ?c2 = Some r \<and> r \<notin> set region_choices)
      \<or> (\<exists>s. arg_days ?c2 = Some s \<and> py_int s = None)"
    by (simp add: separator_seven)
  have p2: "parse_args ?c2 = Inr \<lparr>region = ''KR'', days = [CHR 0x1C, CHR ''7''],
                                  prefer_youtube = False\<rparr>"
    by (simp add: parse_args_def region_choices_def)
  have e1: "exit_code (main ?c1 rate_limited_world) = 2"
    by (simp add: main_def parse_args_def region_choices_def)
  have e2: "exit_code (main ?c2 rate_limited_world) = 1"
    by (simp add: main_def p2 separator_seven)
  have n1: "network (main ?c1 rate_limited_world) = []
            \<and> network (main_basic ?c1 rate_limited_world) = []"
    using usage_errors_fail_before_network [OF h1, of rate_limited_world] by blast
  have n2: "network (main ?c2 rate_limited_world) = []
            \<and> network (main_basic ?c2 rate_limited_world) = []"
    using usage_errors_fail_before_network [OF h2, of rate_limited_world] by blast
  from h e1 e2 n1 n2 separator_seven show ?thesis by blast
qed

text \<open>
  Claim C7. Without the flag no call of the approximation is made. With the flag, when
  the approximation ends with an exception or returns the empty list, the run still exits
  with status 0, goes on to the standard tiers, and writes the document the run without
  the flag writes.
\<close>

theorem approximation_is_opt_in_and_falls_through:
  fixes c :: cli and w :: world and a :: args and d :: int and p :: client
  defines "y \<equiv> fetch_youtube_like_keywords_experimental p
                  (dict_get REGION_GEO_MAP (region a) ''KR'') d"
    and "t \<equiv> fetch_trending_keywords p
                  (dict_get REGION_PN_MAP (region a) ''south_korea'') (today_str w)"
  assumes "parse_args c = Inr a" and "py_int (days a) = Some d" and "TrendReq w = Inr p"
  shows "(\<not> arg_prefer_youtube c \<longrightarrow>
            list_all (\<lambda>x. \<not> is_experimental_call x) (network (main c w)))
       \<and> (arg_prefer_youtube c \<and> (fst y = Inr [] \<or> (\<exists>e. fst y = Inl e)) \<longrightarrow>
            exit_code (main c w) = 0
            \<and> network (main c w) = [Construct] @ snd (snd y) @ snd (snd t)
            \<and> stdout (main c w) = stdout (main (c\<lparr>arg_prefer_youtube := False\<rparr>) w))"
proof (intro conjI)
  show "\<not> arg_prefer_youtube c \<longrightarrow>
          list_all (\<lambda>x. \<not> is_experimental_call x) (network (main c w))"
    by (simp add: main_network_standard)
next
  show "arg_prefer_youtube c \<and> (fst y = Inr [] \<or> (\<exists>e. fst y = Inl e)) \<longrightarrow>
            exit_code (main c w) = 0
            \<and> network (main c w) = [Construct] @ snd (snd y) @ snd (snd t)
            \<and> stdout (main c w) = stdout (main (c\<lparr>arg_prefer_youtube := False\<rparr>) w)"
  proof
  assume h: "arg_prefer_youtube c \<and> (fst y = Inr [] \<or> (\<exists>e. fst y = Inl e))"
  note a = parse_args_region [OF assms(3)]
  from h a have py: "prefer_youtube a" by simp
  obtain k s l cs where f: "t = ((k, s), l, cs)" by (metis prod.exhaust)
  obtain k1 s1 l1 c1 where e:
    "experimental_step p (dict_get REGION_GEO_MAP (region a) ''KR'') d = (k1, s1, l1, c1)"
    by (metis prod.exhaust)
  from h have "fst (experimental_step p (dict_get REGION_GEO_MAP (region a) ''KR'') d) = []"
    using experimental_step_failed experimental_step_keywords unfolding y_def by blast
  with e have k1: "k1 = []" by simp
  have c1: "c1 = snd (snd y)"
    using experimental_step_calls [of p "dict_get REGION_GEO_MAP (region a) ''KR''" d] e
    by (simp add: y_def)
  have on: "main c w = main_body a d w" by (rule main_parsed [OF assms(3,4)])
  have body: "main_body a d w =
     \<lparr>exit_code = 0,
      stdout = [result_doc (region a) d (map (kw_item (today_str w)) k) (map (\<lambda>kw. JVal (PStr kw)) k)],
      stderr = [LogStart (region a)] @ l1 @ l @ [LogCompleted s (length k)],
      network = [Construct] @ c1 @ cs\<rparr>"
    using main_body_fall_through [OF assms(5) py e [unfolded k1] f [unfolded t_def]] .
  have off: "main (c\<lparr>arg_prefer_youtube := False\<rparr>) w = main_body (a\<lparr>prefer_youtube := False\<rparr>) d w"
    using main_parsed [OF parse_args_flag_off [OF assms(3)], of d w] assms(4) by simp
  have body_off: "main_body (a\<lparr>prefer_youtube := False\<rparr>) d w =
     \<lparr>exit_code = 0,
      stdout = [result_doc (region a) d (map (kw_item (today_str w)) k) (map (\<lambda>kw. JVal (PStr kw)) k)],
      stderr = [LogStart (region a)] @ l @ [LogCompleted s (length k)],
      network = [Construct] @ cs\<rparr>"
    using main_body_standard [of w p "a\<lparr>prefer_youtube := False\<rparr>" k s l cs d]
      assms(5) f [unfolded t_def] by simp
  show "exit_code (main c w) = 0
        \<and> network (main c w) = [Construct] @ snd (snd y) @ snd (snd t)
        \<and> stdout (main c w) = stdout (main (c\<lparr>arg_prefer_youtube := False\<rparr>) w)"
    by (simp add: on body off body_off c1 f)
  qed
qed

theorem approximation_falls_through_witness:
  "arg_prefer_youtube youtube_cli
   \<and> exit_code (main youtube_cli rate_limited_world) = 0
   \<and> network (main youtube_cli rate_limited_world) =
       [Construct, BuildPayload [''youtube''] ''now 7-d'' ''KR'' ''youtube'',
        Realtime ''south_korea'', Trending ''south_korea'']
   \<and> stdout (main youtube_cli rate_limited_world) = stdout (main kr_cli rate_limited_world)"
proof -
  have p: "parse_args youtube_cli = Inr \<lparr>region = ''KR'', days = ''7'', prefer_youtube = True\<rparr>"
    by (simp add: youtube_cli_def eval_args)
  have w: "TrendReq rate_limited_world = Inr rate_limited_client"
    by (simp add: rate_limited_world_def)
  have off: "youtube_cli\<lparr>arg_prefer_youtube := False\<rparr> = kr_cli"
    by (simp add: youtube_cli_def kr_cli_def)
  have flag: "arg_prefer_youtube youtube_cli" by (simp add: youtube_cli_def)
  from approximation_is_opt_in_and_falls_through [OF p _ w, of 7] flag
  show ?thesis
    by (simp add: seven dict_get_def REGION_GEO_MAP_def REGION_PN_MAP_def
        youtube_rate_limited fetch_rate_limited off)
qed

text \<open>
  Claim C10. In both programs a status other than 0 means that standard output was never
  written, and status 0 means it was written exactly once: the document is printed by the
  last statement, and an exception of its serialisation ends the process before anything
  is printed.
\<close>

theorem failure_leaves_stdout_empty:
  "(exit_code (main c w) \<noteq> 0 \<longrightarrow> stdout (main c w) = [])
   \<and> (exit_code (main_basic c w) \<noteq> 0 \<longrightarrow> stdout (main_basic c w) = [])
   \<and> (exit_code (main c w) = 0 \<longrightarrow> length (stdout (main c w)) = 1)
   \<and> (exit_code (main_basic c w) = 0 \<longrightarrow> length (stdout (main_basic c w)) = 1)"
  using main_stdout [of c w] main_basic_stdout [of c w] by auto

theorem failure_leaves_stdout_empty_witness:
  "exit_code (main_basic kr_cli numeric_world) = 1
   \<and> stdout (main_basic kr_cli numeric_world) = []
   \<and> exit_code (main \<lparr>arg_region = Some ''KR'', arg_days = Some ''seven'',
                     arg_prefer_youtube = False\<rparr> rate_limited_world) = 1
   \<and> stdout (main \<lparr>arg_region = Some ''KR'', arg_days = Some ''seven'',
                    arg_prefer_youtube = False\<rparr> rate_limited_world) = []"
proof -
  have p: "parse_args_basic kr_cli = Inr \<lparr>region = ''KR'', days = ''7'', prefer_youtube = False\<rparr>"
    by (simp add: parse_args_basic_def kr_parse) (simp add: kr_cli_def)
  have e: "exit_code (main_basic kr_cli numeric_world) = 1"
    by (simp add: main_basic_def p seven main_basic_body_def numeric_world_def numeric_table_def
        rising_of_def df_empty_def series_getitem_def hits_def dict_get_def REGION_GEO_MAP_def
        emit_def result_doc_def Let_def)
  have f: "exit_code (main \<lparr>arg_region = Some ''KR'', arg_days = Some ''seven'',
                     arg_prefer_youtube = False\<rparr> rate_limited_world) = 1"
    by (simp add: main_def eval_args)
  from failure_leaves_stdout_empty [of kr_cli numeric_world]
    failure_leaves_stdout_empty
      [of "\<lparr>arg_region = Some ''KR'', arg_days = Some ''seven'', arg_prefer_youtube = False\<rparr>"
          rate_limited_world] e f
  show ?thesis by simp
qed

end
